theory Spec2Isabelle
  imports Main
begin

section \<open>Data model of \<open>skillbridge/client/channel.py\<close>\<close>

text \<open>
  Python \<open>bytes\<close> are lists of 8-bit characters. A Python \<open>str\<close> is represented by the
  byte sequence of its UTF-8 form: every operation the channel performs on a \<open>str\<close>
  (\<open>split(' ', maxsplit=1)\<close>, comparison with an ASCII literal, \<open>encode()\<close>, and
  \<open>len\<close> of the encoded value) gives the same answer on that form. A \<open>str\<close> holding
  a lone surrogate has no UTF-8 form; it is represented by an ill-formed byte sequence,
  on which \<open>encode\<close> raises. The development covers \<open>Channel.decode_response\<close> and
  \<open>TcpChannel\<close>; \<open>DirectChannel\<close> and the two platform subclasses, which only choose
  the address, are left out.
\<close>

type_synonym bytes = "char list"

text \<open>
  The exceptions that can leave a method of the channel. \<open>ValueError\<close> and
  \<open>RuntimeError\<close> carry the message the code builds. The remaining constructors are
  raised by Python itself, and their message text is not modelled:
  \<open>UnpackError\<close> is the \<open>ValueError\<close> of a failed tuple unpacking,
  \<open>IntLiteralError\<close> the \<open>ValueError\<close> of \<open>int()\<close>, \<open>BufsizeError\<close> the
  \<open>ValueError\<close> of \<open>recv\<close> with a negative size, \<open>SelectError\<close> the \<open>ValueError\<close>
  of \<open>select\<close> on a closed socket; \<open>BrokenPipeError\<close> is a subclass of \<open>OSError\<close>.
\<close>

datatype error =
    ValueError string
  | RuntimeError string
  | UnpackError
  | IntLiteralError
  | BufsizeError
  | SelectError
  | UnicodeEncodeError
  | UnicodeDecodeError
  | OSError
  | BrokenPipeError
  | KeyboardInterrupt

subsection \<open>\<open>str.encode()\<close> and \<open>bytes.decode()\<close>\<close>

definition byte_in :: "char \<Rightarrow> nat \<Rightarrow> nat \<Rightarrow> bool" where
  "byte_in c lo hi = (lo \<le> of_char c \<and> (of_char c :: nat) \<le> hi)"

text \<open>Well-formed UTF-8 (the strict decoder of Python: no overlong forms, no surrogates,
  nothing above U+10FFFF).\<close>

fun utf8_valid :: "bytes \<Rightarrow> bool" where
  "utf8_valid [] = True"
| "utf8_valid (b # bs) =
     (if byte_in b 0x00 0x7F then utf8_valid bs
      else if byte_in b 0xC2 0xDF then
        (case bs of c1 # r \<Rightarrow> byte_in c1 0x80 0xBF \<and> utf8_valid r | _ \<Rightarrow> False)
      else if byte_in b 0xE0 0xEF then
        (case bs of
           c1 # c2 # r \<Rightarrow>
             byte_in c1 (if b = CHR 0xE0 then 0xA0 else 0x80)
                        (if b = CHR 0xED then 0x9F else 0xBF)
             \<and> byte_in c2 0x80 0xBF \<and> utf8_valid r
         | _ \<Rightarrow> False)
      else if byte_in b 0xF0 0xF4 then
        (case bs of
           c1 # c2 # c3 # r \<Rightarrow>
             byte_in c1 (if b = CHR 0xF0 then 0x90 else 0x80)
                        (if b = CHR 0xF4 then 0x8F else 0xBF)
             \<and> byte_in c2 0x80 0xBF \<and> byte_in c3 0x80 0xBF \<and> utf8_valid r
         | _ \<Rightarrow> False)
      else False)"

definition encode :: "string \<Rightarrow> error + bytes" where
  "encode s = (if utf8_valid s then Inr s else Inl UnicodeEncodeError)"

definition decode :: "bytes \<Rightarrow> error + string" where
  "decode b = (if utf8_valid b then Inr b else Inl UnicodeDecodeError)"

subsection \<open>Decimal text of integers, \<open>f'{n:10}'\<close> and \<open>int()\<close>\<close>

definition digit_char :: "nat \<Rightarrow> char" where
  "digit_char d = ''0123456789'' ! d"

function dec :: "nat \<Rightarrow> string" where
  "dec n = (if n < 10 then [digit_char n] else dec (n div 10) @ [digit_char (n mod 10)])"
  by pat_completeness auto
termination
  by (relation "measure id") auto

declare dec.simps [simp del]

text \<open>\<open>str(i)\<close>, as an f-string formats an integer without a format specification.\<close>

definition str_int :: "int \<Rightarrow> string" where
  "str_int i = (if i < 0 then CHR ''-'' # dec (nat (- i)) else dec (nat i))"

text \<open>\<open>f'{n:10}'\<close> for \<open>n = len(byte)\<close>: right-justified in a field of width 10, padded
  with spaces; a longer number is not truncated.\<close>

definition format_len :: "nat \<Rightarrow> string" where
  "format_len n = replicate (10 - length (dec n)) CHR '' '' @ dec n"

definition is_space :: "char \<Rightarrow> bool" where
  "is_space c = (c \<in> set [CHR '' '', CHR 0x09, CHR 0x0A, CHR 0x0B, CHR 0x0C, CHR 0x0D])"

definition is_digit :: "char \<Rightarrow> bool" where
  "is_digit c = (c \<in> set ''0123456789'')"

definition digit_val :: "char \<Rightarrow> int" where
  "digit_val c = of_char c - 48"

text \<open>The digit part of an integer literal: digits, with single underscores allowed
  between two digits.\<close>

fun digits :: "string \<Rightarrow> bool" where
  "digits [] = False"
| "digits [c] = is_digit c"
| "digits (c # d # cs) =
     (is_digit c \<and> (if d = CHR ''_'' then digits cs else digits (d # cs)))"

definition digits_value :: "string \<Rightarrow> int" where
  "digits_value t = foldl (\<lambda>a c. 10 * a + digit_val c) 0 (filter (\<lambda>c. c \<noteq> CHR ''_'') t)"

definition strip :: "string \<Rightarrow> string" where
  "strip s = rev (dropWhile is_space (rev (dropWhile is_space s)))"

text \<open>\<open>int(b)\<close> on \<open>bytes\<close>: surrounding whitespace is skipped, an optional sign, then
  the digit part; anything else is a \<open>ValueError\<close>.\<close>

definition py_int :: "bytes \<Rightarrow> error + int" where
  "py_int b =
     (case strip b of
        [] \<Rightarrow> Inl IntLiteralError
      | c # t \<Rightarrow>
          if c = CHR ''-'' then
            (if digits t then Inr (- digits_value t) else Inl IntLiteralError)
          else if c = CHR ''+'' then
            (if digits t then Inr (digits_value t) else Inl IntLiteralError)
          else if digits (c # t) then Inr (digits_value (c # t))
          else Inl IntLiteralError)"

subsection \<open>\<open>Channel.decode_response\<close>\<close>

text \<open>\<open>response.split(' ', maxsplit=1)\<close>: one element when there is no space, else the
  text before the first space and everything after it.\<close>

definition split1 :: "string \<Rightarrow> string list" where
  "split1 s =
     (if CHR '' '' \<in> set s
      then [takeWhile (\<lambda>c. c \<noteq> CHR '' '') s, tl (dropWhile (\<lambda>c. c \<noteq> CHR '' '') s)]
      else [s])"

definition timeout_message :: string where
  "timeout_message =
     ''Timeout: you should restart the skill server and '' @
     ''increase the timeout `pyStartServer ?timeout X`.''"

definition decode_response :: "string \<Rightarrow> error + string" where
  "decode_response response =
     (case split1 response of
        [status, rest] \<Rightarrow>
          if status = ''failure'' then
            (if rest = ''<timeout>'' then Inl (RuntimeError timeout_message)
             else Inl (RuntimeError rest))
          else Inr rest
      | _ \<Rightarrow> Inl UnpackError)"

section \<open>The socket and the channel state\<close>

text \<open>
  The socket is an external object. Its behaviour is given by scripts that the channel
  cannot influence: \<open>tx\<close> tells how the k-th \<open>sendall\<close> ends, \<open>rx\<close> what the k-th
  blocking \<open>recv\<close> meets (a chunk of data arriving, the peer having closed, an interrupt
  of the user, an error of the operating system, or nothing at all, ever), \<open>conn\<close>
  whether the k-th \<open>connect\<close> succeeds, and \<open>sel\<close> whether the k-th \<open>select\<close> on an
  empty socket sees data within its timeout. The end of the stream is permanent: once
  \<open>recv\<close> meets it, every later \<open>recv\<close> on that socket returns \<open>b''\<close> again; an
  arriving chunk without bytes is the end of the stream too. An interrupt of the user is
  considered where the code provides for it, in \<open>recv\<close>.
\<close>

datatype tx_event = TxOk | TxBrokenPipe | TxOSError

datatype rx_event = RxData bytes | RxClosed | RxInterrupt | RxOSError | RxHang

text \<open>What the channel did to the outside world, in order.\<close>

datatype action = Sent bytes | Closed | Connect | Printed string

text \<open>
  A \<open>TcpChannel\<close> together with its socket: \<open>max_transmission_length\<close> and
  \<open>connected\<close> are the attributes of the class; \<open>sock_open\<close> tells whether
  \<open>self.socket\<close> is an open handle and \<open>pending\<close> holds the bytes that have arrived
  on it and were not read yet. The address never changes and decides nothing here.
\<close>

record channel =
  max_transmission_length :: int
  connected :: bool
  sock_open :: bool
  pending :: bytes
  tx :: "nat \<Rightarrow> tx_event"
  tx_pos :: nat
  rx :: "nat \<Rightarrow> rx_event"
  rx_pos :: nat
  conn :: "nat \<Rightarrow> bool"
  conn_pos :: nat
  sel :: "nat \<Rightarrow> bool"
  sel_pos :: nat
  trace :: "action list"

text \<open>A method either never returns (\<open>None\<close>), or raises (\<open>Inl\<close>) or returns
  (\<open>Inr\<close>), leaving the channel in a new state.\<close>

type_synonym 'a io = "channel \<Rightarrow> ((error + 'a) \<times> channel) option"

definition io_bind :: "'a io \<Rightarrow> ('a \<Rightarrow> 'b io) \<Rightarrow> 'b io" where
  "io_bind m f w =
     (case m w of
        None \<Rightarrow> None
      | Some (Inl e, w') \<Rightarrow> Some (Inl e, w')
      | Some (Inr x, w') \<Rightarrow> f x w')"

definition io_then :: "'a io \<Rightarrow> 'b io \<Rightarrow> 'b io" where
  "io_then m k = io_bind m (\<lambda>_. k)"

text \<open>\<open>try: m except (BrokenPipeError, OSError): h\<close>\<close>

definition on_os_error :: "'a io \<Rightarrow> 'a io \<Rightarrow> 'a io" where
  "on_os_error m h w =
     (case m w of
        Some (Inl e, w') \<Rightarrow>
          if e = BrokenPipeError \<or> e = OSError then h w' else Some (Inl e, w')
      | r \<Rightarrow> r)"

definition print :: "string \<Rightarrow> unit io" where
  "print s w = Some (Inr (), w\<lparr>trace := trace w @ [Printed s]\<rparr>)"

subsection \<open>The methods of the socket\<close>

definition sendall :: "bytes \<Rightarrow> unit io" where
  "sendall b w =
     (if \<not> sock_open w then Some (Inl OSError, w)
      else
        (case tx w (tx_pos w) of
           TxOk \<Rightarrow> Some (Inr (), w\<lparr>tx_pos := Suc (tx_pos w), trace := trace w @ [Sent b]\<rparr>)
         | TxBrokenPipe \<Rightarrow> Some (Inl BrokenPipeError, w\<lparr>tx_pos := Suc (tx_pos w)\<rparr>)
         | TxOSError \<Rightarrow> Some (Inl OSError, w\<lparr>tx_pos := Suc (tx_pos w)\<rparr>)))"

text \<open>\<open>recv(n)\<close> returns at most \<open>n\<close> bytes: what is pending if anything is, else
  what arrives next; the rest of an arriving chunk stays pending. A negative size is
  refused and a size of zero answered with \<open>b''\<close> before the handle is touched.\<close>

definition recv :: "int \<Rightarrow> bytes io" where
  "recv n w =
     (if n < 0 then Some (Inl BufsizeError, w)
      else if n = 0 then Some (Inr [], w)
      else if \<not> sock_open w then Some (Inl OSError, w)
      else if pending w \<noteq> [] then
        Some (Inr (take (nat n) (pending w)), w\<lparr>pending := drop (nat n) (pending w)\<rparr>)
      else
        (case rx w (rx_pos w) of
           RxData d \<Rightarrow>
             if d = [] then Some (Inr [], w)
             else Some (Inr (take (nat n) d),
                        w\<lparr>pending := drop (nat n) d, rx_pos := Suc (rx_pos w)\<rparr>)
         | RxClosed \<Rightarrow> Some (Inr [], w)
         | RxInterrupt \<Rightarrow> Some (Inl KeyboardInterrupt, w\<lparr>rx_pos := Suc (rx_pos w)\<rparr>)
         | RxOSError \<Rightarrow> Some (Inl OSError, w\<lparr>rx_pos := Suc (rx_pos w)\<rparr>)
         | RxHang \<Rightarrow> None))"

text \<open>\<open>select([self.socket], [], [], 0.1)\<close>, reduced to whether the socket is readable.\<close>

definition select_readable :: "bool io" where
  "select_readable w =
     (if \<not> sock_open w then Some (Inl SelectError, w)
      else if pending w \<noteq> [] then Some (Inr True, w)
      else Some (Inr (sel w (sel_pos w)), w\<lparr>sel_pos := Suc (sel_pos w)\<rparr>))"

definition sock_close :: "channel \<Rightarrow> channel" where
  "sock_close w = w\<lparr>sock_open := False, pending := [], trace := trace w @ [Closed]\<rparr>"

subsection \<open>\<open>TcpChannel\<close>\<close>

definition connect :: "unit io" where
  "connect w =
     (if conn w (conn_pos w) then
        Some (Inr (), w\<lparr>conn_pos := Suc (conn_pos w), trace := trace w @ [Connect],
                        sock_open := True, pending := [], connected := True\<rparr>)
      else
        Some (Inl OSError, w\<lparr>conn_pos := Suc (conn_pos w), trace := trace w @ [Connect]\<rparr>))"

text \<open>\<open>create_socket\<close> and \<open>configure\<close> leave no mark on the state.\<close>

definition start :: "unit io" where
  "start = connect"

definition reconnect :: "unit io" where
  "reconnect w = start (sock_close w)"

partial_function (option) receive_all ::
  "int \<Rightarrow> channel \<Rightarrow> ((error + bytes list) \<times> channel) option" where
  "receive_all remaining w =
     (if remaining = 0 then Some (Inr [], w)
      else
        (case recv remaining w of
           None \<Rightarrow> None
         | Some (Inl e, w') \<Rightarrow> Some (Inl e, w')
         | Some (Inr data, w') \<Rightarrow>
             Option.bind (receive_all (remaining - int (length data)) w')
               (\<lambda>(r, w'').
                  Some (case r of Inl e \<Rightarrow> Inl e | Inr chunks \<Rightarrow> Inr (data # chunks), w''))))"

definition exceeds_message :: "nat \<Rightarrow> int \<Rightarrow> string" where
  "exceeds_message got should =
     ''Data exceeds max transmission length '' @ str_int (int got) @ '' > '' @ str_int should"

definition send_only :: "string \<Rightarrow> unit io" where
  "send_only data w =
     (case encode data of
        Inl e \<Rightarrow> Some (Inl e, w)
      | Inr byte \<Rightarrow>
          if int (length byte) > max_transmission_length w then
            Some (Inl (ValueError
                    (exceeds_message (length byte) (max_transmission_length w))), w)
          else
            (let len = format_len (length byte) in
             io_then
               (on_os_error (sendall len)
                  (io_then (print ''attempting to reconnect'')
                    (io_then reconnect (sendall len))))
               (on_os_error (sendall byte)
                  (io_then (print ''attempting to reconnect'')
                    (io_then reconnect
                      (io_then (sendall len) (sendall byte))))) w))"

definition aborted_message :: string where
  "aborted_message =
     ''Receive aborted, you should restart the skill server or'' @
     '' call `ws.try_repair()` if you are sure that the response'' @
     '' will arrive.''"

definition died_message :: string where
  "died_message = ''The server unexpectedly died''"

definition receive_only :: "string io" where
  "receive_only w =
     (case recv 10 w of
        None \<Rightarrow> None
      | Some (Inl e, w1) \<Rightarrow>
          if e = KeyboardInterrupt then Some (Inl (RuntimeError aborted_message), w1)
          else Some (Inl e, w1)
      | Some (Inr received_length_raw, w1) \<Rightarrow>
          if received_length_raw = [] then Some (Inl (RuntimeError died_message), w1)
          else
            (case py_int received_length_raw of
               Inl e \<Rightarrow> Some (Inl e, w1)
             | Inr received_length \<Rightarrow>
                 (case receive_all received_length w1 of
                    None \<Rightarrow> None
                  | Some (Inl e, w2) \<Rightarrow> Some (Inl e, w2)
                  | Some (Inr chunks, w2) \<Rightarrow>
                      (case decode (concat chunks) of
                         Inl e \<Rightarrow> Some (Inl e, w2)
                       | Inr response \<Rightarrow> Some (decode_response response, w2)))))"

definition send :: "string \<Rightarrow> string io" where
  "send data = io_then (send_only data) receive_only"

text \<open>\<open>try_repair\<close> returns what \<open>except Exception\<close> catches as a value; a
  \<open>KeyboardInterrupt\<close> is no \<open>Exception\<close>, and \<open>message.decode()\<close> stands outside the
  \<open>try\<close>.\<close>

definition try_repair :: "(error + string) io" where
  "try_repair w =
     (case recv 10 w of
        None \<Rightarrow> None
      | Some (Inl e, w1) \<Rightarrow>
          if e = KeyboardInterrupt then Some (Inl e, w1) else Some (Inr (Inl e), w1)
      | Some (Inr raw, w1) \<Rightarrow>
          (case py_int raw of
             Inl e \<Rightarrow> Some (Inr (Inl e), w1)
           | Inr len \<Rightarrow>
               (case receive_all len w1 of
                  None \<Rightarrow> None
                | Some (Inl e, w2) \<Rightarrow>
                    if e = KeyboardInterrupt then Some (Inl e, w2) else Some (Inr (Inl e), w2)
                | Some (Inr chunks, w2) \<Rightarrow>
                    (case decode (concat chunks) of
                       Inl e \<Rightarrow> Some (Inl e, w2)
                     | Inr message \<Rightarrow> Some (Inr (Inr message), w2)))))"

definition close :: "unit io" where
  "close w =
     (if connected w then
        io_bind (sendall ''         6$close'')
          (\<lambda>_ w'. Some (Inr (), (sock_close w')\<lparr>connected := False\<rparr>)) w
      else Some (Inr (), w))"

partial_function (option) flush :: "channel \<Rightarrow> ((error + unit) \<times> channel) option" where
  "flush w =
     (case select_readable w of
        None \<Rightarrow> None
      | Some (Inl e, w1) \<Rightarrow> Some (Inl e, w1)
      | Some (Inr readable, w1) \<Rightarrow>
          if readable then
            (case recv 10 w1 of
               None \<Rightarrow> None
             | Some (Inl e, w2) \<Rightarrow> Some (Inl e, w2)
             | Some (Inr raw, w2) \<Rightarrow>
                 (case py_int raw of
                    Inl e \<Rightarrow> Some (Inl e, w2)
                  | Inr len \<Rightarrow>
                      (case recv len w2 of
                         None \<Rightarrow> None
                       | Some (Inl e, w3) \<Rightarrow> Some (Inl e, w3)
                       | Some (Inr discarded, w3) \<Rightarrow> flush w3)))
          else Some (Inr (), w1))"

subsection \<open>Observations and test doubles\<close>

text \<open>Every call of \<open>reconnect\<close> makes one \<open>connect\<close> attempt, and nothing else does.\<close>

definition reconnects :: "channel \<Rightarrow> nat" where
  "reconnects w = count_list (trace w) Connect"

definition scripted :: "'a list \<Rightarrow> 'a \<Rightarrow> nat \<Rightarrow> 'a" where
  "scripted xs d k = (if k < length xs then xs ! k else d)"

text \<open>A freshly constructed channel (default \<open>max_transmission_length\<close> of a
  \<open>TcpChannel\<close>) on a socket that takes every write and whose peer has closed.\<close>

definition channel0 :: channel where
  "channel0 =
     \<lparr>max_transmission_length = 1000000, connected = True, sock_open = True, pending = [],
      tx = (\<lambda>_. TxOk), tx_pos = 0, rx = (\<lambda>_. RxClosed), rx_pos = 0,
      conn = (\<lambda>_. True), conn_pos = 0, sel = (\<lambda>_. False), sel_pos = 0, trace = []\<rparr>"

text \<open>The length write fails, its retry succeeds, the payload write fails, and all
  later writes succeed; the peer answers \<open>success ok\<close>.\<close>

definition channel_two_failures :: channel where
  "channel_two_failures =
     channel0\<lparr>tx := scripted [TxOSError, TxOk, TxBrokenPipe] TxOk,
              rx := scripted [RxData ''        10success ok''] RxClosed\<rparr>"


text \<open>The bytes that the next \<open>k\<close> arrivals bring, when each of them is a chunk of
  data.\<close>

fun arriving :: "channel \<Rightarrow> nat \<Rightarrow> bytes option" where
  "arriving w 0 = Some []"
| "arriving w (Suc k) =
     (case rx w (rx_pos w) of
        RxData d \<Rightarrow>
          if d = [] then None
          else map_option (\<lambda>r. d @ r) (arriving (w\<lparr>rx_pos := Suc (rx_pos w)\<rparr>) k)
      | _ \<Rightarrow> None)"

text \<open>A payload of \<open>10\<^sup>1\<^sup>0\<close> bytes.\<close>

definition big_payload :: string where
  "big_payload = replicate 10000000000 CHR ''a''"

text \<open>The bytes that the two writes of \<open>_send_only\<close> put on the wire for one payload.\<close>

definition frame :: "bytes \<Rightarrow> bytes" where
  "frame b = format_len (length b) @ b"

text \<open>The channel after \<open>k\<close> full turns of the loop of \<open>flush\<close>: in each the poll
  reports the socket readable, the header read parses, and the read of the body
  returns.\<close>

fun flush_rounds :: "nat \<Rightarrow> channel \<Rightarrow> channel option" where
  "flush_rounds 0 w = Some w"
| "flush_rounds (Suc k) w =
     (case select_readable w of
        Some (Inr True, w1) \<Rightarrow>
          (case recv 10 w1 of
             Some (Inr raw, w2) \<Rightarrow>
               (case py_int raw of
                  Inr len \<Rightarrow>
                    (case recv len w2 of
                       Some (Inr discarded, w3) \<Rightarrow> flush_rounds k w3
                     | _ \<Rightarrow> None)
                | _ \<Rightarrow> None)
           | _ \<Rightarrow> None)
      | _ \<Rightarrow> None)"

section \<open>Decoding a response\<close>

lemma split1_no_space: "CHR '' '' \<notin> set s \<Longrightarrow> split1 s = [s]"
  by (simp add: split1_def)

lemma split1_space:
  "CHR '' '' \<notin> set status \<Longrightarrow> split1 (status @ CHR '' '' # rest) = [status, rest]"
  by (induction status) (auto simp: split1_def)

lemma decode_response_split:
  "CHR '' '' \<notin> set status \<Longrightarrow>
   decode_response (status @ CHR '' '' # rest) =
     (if status = ''failure'' then
        (if rest = ''<timeout>'' then Inl (RuntimeError timeout_message)
         else Inl (RuntimeError rest))
      else Inr rest)"
  by (simp add: decode_response_def split1_space)

text \<open>
  Claim C8. A response \<open>success <rest>\<close> decodes to \<open><rest>\<close>, whatever \<open><rest>\<close>
  holds (further spaces included, since only the first space splits);
  \<open>failure <timeout>\<close> raises the error whose message tells to restart the server with a
  larger timeout; \<open>failure <rest>\<close> with any other \<open><rest>\<close> raises an error whose
  message is \<open><rest>\<close>, unchanged.
\<close>

theorem decode_response_status:
  "decode_response (''success '' @ rest) = Inr rest
   \<and> decode_response ''failure <timeout>'' =
       Inl (RuntimeError (''Timeout: you should restart the skill server and '' @
                          ''increase the timeout `pyStartServer ?timeout X`.''))
   \<and> (rest \<noteq> ''<timeout>'' \<longrightarrow> decode_response (''failure '' @ rest) = Inl (RuntimeError rest))"
  using decode_response_split [of "''success''" rest]
    decode_response_split [of "''failure''" rest]
    decode_response_split [of "''failure''" "''<timeout>''"]
  by (simp add: timeout_message_def)

theorem decode_response_status_witness:
  "''disk full'' \<noteq> ''<timeout>''
   \<and> decode_response ''failure disk full'' = Inl (RuntimeError ''disk full'')
   \<and> decode_response ''success hello world'' = Inr ''hello world''"
  using decode_response_status [of "''disk full''"] decode_response_status [of "''hello world''"]
  by simp

text \<open>
  Claim C3, as the code has it. A response without any space raises the \<open>ValueError\<close> of
  the failed unpacking, which is never the \<open>RuntimeError\<close> of a remote failure. The
  status is compared with \<open>failure\<close> only: a response whose first token is anything
  else, \<open>success\<close> or not, returns the text after the first space.
\<close>

theorem decode_response_malformed:
  "(CHR '' '' \<notin> set response \<longrightarrow>
      decode_response response = Inl UnpackError
      \<and> (\<forall>m. decode_response response \<noteq> Inl (RuntimeError m)))
   \<and> (CHR '' '' \<notin> set status \<and> status \<noteq> ''failure'' \<longrightarrow>
      decode_response (status @ CHR '' '' # rest) = Inr rest)"
  by (simp add: decode_response_split) (simp add: decode_response_def split1_no_space)

theorem decode_response_malformed_witness:
  "CHR '' '' \<notin> set ''garbage'' \<and> decode_response ''garbage'' = Inl UnpackError
   \<and> CHR '' '' \<notin> set ''success'' \<and> ''success'' \<noteq> ''failure''
   \<and> decode_response ''success ok'' = Inr ''ok''"
  using decode_response_malformed [of "''garbage''" "''success''" "''ok''"]
  by simp

text \<open>The status \<open>foo\<close> is neither \<open>success\<close> nor \<open>failure\<close>, and \<open>foo bar\<close> is
  returned as the value \<open>bar\<close>.\<close>

theorem decode_response_unknown_status_counterexample:
  "''foo'' \<noteq> ''success'' \<and> ''foo'' \<noteq> ''failure'' \<and> decode_response ''foo bar'' = Inr ''bar''"
  by (simp add: decode_response_def split1_def)

section \<open>Evaluating the methods\<close>

lemma io_then_simps:
  "m w = None \<Longrightarrow> io_then m k w = None"
  "m w = Some (Inl e, w') \<Longrightarrow> io_then m k w = Some (Inl e, w')"
  "m w = Some (Inr x, w') \<Longrightarrow> io_then m k w = k w'"
  by (simp_all add: io_then_def io_bind_def)

lemma send_only_ok:
  assumes "encode data = Inr b" and "int (length b) \<le> max_transmission_length w"
    and "sock_open w" and "tx w (tx_pos w) = TxOk" and "tx w (Suc (tx_pos w)) = TxOk"
  shows "send_only data w =
           Some (Inr (), w\<lparr>tx_pos := Suc (Suc (tx_pos w)),
                           trace := trace w @ [Sent (format_len (length b)), Sent b]\<rparr>)"
  using assms
  by (simp add: send_only_def io_then_def io_bind_def on_os_error_def sendall_def)

lemma send_only_no_failure:
  "sock_open w \<Longrightarrow> tx w (tx_pos w) = TxOk \<Longrightarrow> tx w (Suc (tx_pos w)) = TxOk \<Longrightarrow>
   send_only data w = Some (r, w') \<Longrightarrow> reconnects w' = reconnects w"
  by (auto simp: send_only_def Let_def io_then_def io_bind_def on_os_error_def
      sendall_def reconnects_def split: sum.splits if_splits)

lemma encode_ping: "encode ''ping'' = Inr ''ping''"
  by (simp add: encode_def byte_in_def)

lemma format_len_4: "format_len (Suc (Suc (Suc (Suc 0)))) = ''         4''"
  by (simp add: format_len_def dec.simps digit_char_def eval_nat_numeral)

lemma format_len_6: "format_len 6 = ''         6''"
  by (simp add: format_len_def dec.simps digit_char_def eval_nat_numeral)

lemma send_only_ping:
  "tx_pos w = 0 \<Longrightarrow> tx w = (\<lambda>_. TxOk) \<Longrightarrow> sock_open w \<Longrightarrow>
   max_transmission_length w = 1000000 \<Longrightarrow>
   send_only ''ping'' w =
     Some (Inr (), w\<lparr>tx_pos := 2, trace := trace w @ [Sent ''         4'', Sent ''ping'']\<rparr>)"
  using send_only_ok [OF encode_ping, of w]
  by (simp add: format_len_4 numeral_2_eq_2)

lemma py_int_5: "py_int ''         5'' = Inr 5"
  by (simp add: py_int_def strip_def is_space_def is_digit_def digits_value_def digit_val_def)

lemma py_int_10: "py_int ''        10'' = Inr 10"
  by (simp add: py_int_def strip_def is_space_def is_digit_def digits_value_def digit_val_def)

section \<open>An oversized payload\<close>

text \<open>
  Claim C6. When the encoded payload is longer than \<open>max_transmission_length\<close>,
  \<open>send\<close> raises a \<open>ValueError\<close> whose message holds the actual and the allowed size,
  and the channel with its socket is exactly as before: nothing was written.
\<close>

theorem send_oversized:
  assumes "encode P = Inr b" and "int (length b) > max_transmission_length w"
  shows "send P w =
           Some (Inl (ValueError (''Data exceeds max transmission length '' @
                        str_int (int (length b)) @ '' > '' @
                        str_int (max_transmission_length w))), w)"
proof -
  have "send_only P w =
          Some (Inl (ValueError (exceeds_message (length b) (max_transmission_length w))), w)"
    using assms by (simp add: send_only_def)
  then show ?thesis
    by (simp add: send_def io_then_simps exceeds_message_def)
qed

theorem send_oversized_witness:
  "encode ''abcd'' = Inr ''abcd''
   \<and> int (length ''abcd'') > max_transmission_length (channel0\<lparr>max_transmission_length := 3\<rparr>)
   \<and> send ''abcd'' (channel0\<lparr>max_transmission_length := 3\<rparr>) =
       Some (Inl (ValueError ''Data exceeds max transmission length 4 > 3''),
             channel0\<lparr>max_transmission_length := 3\<rparr>)"
proof -
  have e: "encode ''abcd'' = Inr ''abcd''"
    by (simp add: encode_def byte_in_def)
  have l: "int (length ''abcd'') > max_transmission_length (channel0\<lparr>max_transmission_length := 3\<rparr>)"
    by simp
  show ?thesis
    using e l send_oversized [OF e l]
    by (simp add: str_int_def dec.simps digit_char_def)
qed

section \<open>Closing\<close>

lemma broken_pipe_close:
  "close (channel0\<lparr>tx := (\<lambda>_. TxBrokenPipe)\<rparr>) =
     Some (Inl BrokenPipeError, channel0\<lparr>tx := (\<lambda>_. TxBrokenPipe), tx_pos := 1\<rparr>)"
  by (simp add: close_def io_bind_def sendall_def channel0_def)

text \<open>
  Claim C9, as the code has it. On a connected channel whose socket takes the write,
  \<open>close\<close> sends the 16 bytes of the frame of \<open>$close\<close> (the number 6
  right-justified in ten columns, then the payload), closes the socket and clears
  \<open>connected\<close>; \<open>close\<close> on the channel so obtained, as on any channel that is not
  connected, returns at once and leaves it as it is. On a connected channel whose socket
  refuses the write, the error of the write leaves \<open>close\<close>: nothing is sent, the
  socket is not closed and \<open>connected\<close> stays set.
\<close>

theorem close_handshake:
  "(connected w \<and> sock_open w \<and> tx w (tx_pos w) = TxOk \<longrightarrow>
      close w = Some (Inr (),
           w\<lparr>connected := False, sock_open := False, pending := [],
             tx_pos := Suc (tx_pos w),
             trace := trace w @ [Sent ''         6$close'', Closed]\<rparr>)
      \<and> close (w\<lparr>connected := False, sock_open := False, pending := [],
             tx_pos := Suc (tx_pos w),
             trace := trace w @ [Sent ''         6$close'', Closed]\<rparr>) =
           Some (Inr (),
             w\<lparr>connected := False, sock_open := False, pending := [],
               tx_pos := Suc (tx_pos w),
               trace := trace w @ [Sent ''         6$close'', Closed]\<rparr>))
   \<and> (connected w \<and> \<not> (sock_open w \<and> tx w (tx_pos w) = TxOk) \<longrightarrow>
      (\<exists>e. (e = OSError \<or> e = BrokenPipeError)
         \<and> close w =
             Some (Inl e, w\<lparr>tx_pos := (if sock_open w then Suc (tx_pos w) else tx_pos w)\<rparr>)))
   \<and> (\<not> connected w \<longrightarrow> close w = Some (Inr (), w))
   \<and> ''         6$close'' = format_len 6 @ ''$close''
   \<and> length ''         6$close'' = 16"
proof (intro conjI impI)
  assume "connected w \<and> \<not> (sock_open w \<and> tx w (tx_pos w) = TxOk)"
  then show "\<exists>e. (e = OSError \<or> e = BrokenPipeError)
         \<and> close w =
             Some (Inl e, w\<lparr>tx_pos := (if sock_open w then Suc (tx_pos w) else tx_pos w)\<rparr>)"
    by (cases "tx w (tx_pos w)") (auto simp: close_def io_bind_def sendall_def)
qed (simp_all add: close_def io_bind_def sendall_def sock_close_def format_len_6)

theorem close_handshake_witness:
  "connected channel0 \<and> sock_open channel0 \<and> tx channel0 (tx_pos channel0) = TxOk
   \<and> close channel0 =
       Some (Inr (), channel0\<lparr>connected := False, sock_open := False, tx_pos := 1,
                              trace := [Sent ''         6$close'', Closed]\<rparr>)
   \<and> \<not> connected (channel0\<lparr>connected := False, sock_open := False, tx_pos := 1,
                              trace := [Sent ''         6$close'', Closed]\<rparr>)
   \<and> close (channel0\<lparr>connected := False, sock_open := False, tx_pos := 1,
                              trace := [Sent ''         6$close'', Closed]\<rparr>) =
       Some (Inr (), channel0\<lparr>connected := False, sock_open := False, tx_pos := 1,
                              trace := [Sent ''         6$close'', Closed]\<rparr>)
   \<and> connected (channel0\<lparr>tx := (\<lambda>_. TxBrokenPipe)\<rparr>)
   \<and> tx (channel0\<lparr>tx := (\<lambda>_. TxBrokenPipe)\<rparr>)
         (tx_pos (channel0\<lparr>tx := (\<lambda>_. TxBrokenPipe)\<rparr>)) = TxBrokenPipe
   \<and> (\<exists>e. (e = OSError \<or> e = BrokenPipeError)
         \<and> close (channel0\<lparr>tx := (\<lambda>_. TxBrokenPipe)\<rparr>) =
             Some (Inl e, channel0\<lparr>tx := (\<lambda>_. TxBrokenPipe), tx_pos := 1\<rparr>))"
proof -
  let ?b = "channel0\<lparr>tx := (\<lambda>_. TxBrokenPipe)\<rparr>"
  let ?c = "channel0\<lparr>connected := False, sock_open := False, tx_pos := 1,
                              trace := [Sent ''         6$close'', Closed]\<rparr>"
  have h: "connected channel0 \<and> sock_open channel0 \<and> tx channel0 (tx_pos channel0) = TxOk"
    by (simp add: channel0_def)
  have n: "\<not> connected ?c" by simp
  have g: "connected ?b \<and> \<not> (sock_open ?b \<and> tx ?b (tx_pos ?b) = TxOk)"
    by (simp add: channel0_def)
  have 1: "close channel0 = Some (Inr (), ?c)"
    using close_handshake [of channel0] h by (simp add: channel0_def)
  have 2: "close ?c = Some (Inr (), ?c)"
    using close_handshake [of ?c] n by blast
  have "\<exists>e. (e = OSError \<or> e = BrokenPipeError)
         \<and> close ?b = Some (Inl e, ?b\<lparr>tx_pos := (if sock_open ?b then Suc (tx_pos ?b) else tx_pos ?b)\<rparr>)"
    using close_handshake [of ?b] g by blast
  then have 3: "\<exists>e. (e = OSError \<or> e = BrokenPipeError)
         \<and> close ?b = Some (Inl e, channel0\<lparr>tx := (\<lambda>_. TxBrokenPipe), tx_pos := 1\<rparr>)"
    by (simp add: channel0_def)
  show ?thesis
    using h n 1 2 3 by (simp add: channel0_def)
qed

text \<open>The channel is connected and the write of the close frame meets a broken pipe:
  \<open>close\<close> raises, nothing is sent, the socket stays open and \<open>connected\<close> stays
  set.\<close>

theorem close_write_fails_counterexample:
  "connected (channel0\<lparr>tx := (\<lambda>_. TxBrokenPipe)\<rparr>)
   \<and> close (channel0\<lparr>tx := (\<lambda>_. TxBrokenPipe)\<rparr>) =
       Some (Inl BrokenPipeError, channel0\<lparr>tx := (\<lambda>_. TxBrokenPipe), tx_pos := 1\<rparr>)
   \<and> connected (channel0\<lparr>tx := (\<lambda>_. TxBrokenPipe), tx_pos := 1\<rparr>)
   \<and> sock_open (channel0\<lparr>tx := (\<lambda>_. TxBrokenPipe), tx_pos := 1\<rparr>)
   \<and> trace (channel0\<lparr>tx := (\<lambda>_. TxBrokenPipe), tx_pos := 1\<rparr>) = []"
  using broken_pipe_close by (simp add: channel0_def)

section \<open>The peer has closed\<close>

lemma recv_empty_unchanged:
  "recv n w = Some (Inr [], w') \<Longrightarrow> 0 < n \<Longrightarrow> w' = w"
  by (auto simp: recv_def split: if_splits rx_event.splits)

text \<open>
  Claim C5. When the frame has been written and the read of the ten header bytes
  returns no byte, \<open>send\<close> raises \<open>The server unexpectedly died\<close>, and the channel is
  left exactly as the write phase left it: after the empty read nothing is sent, closed
  or connected again. When moreover the socket took both writes, the whole call has
  performed no reconnect.
\<close>

theorem send_peer_terminated:
  assumes "send_only data w = Some (Inr (), w1)" and "recv 10 w1 = Some (Inr [], w2)"
  shows "send data w = Some (Inl (RuntimeError ''The server unexpectedly died''), w1)
         \<and> (sock_open w \<and> tx w (tx_pos w) = TxOk \<and> tx w (Suc (tx_pos w)) = TxOk \<longrightarrow>
              reconnects w1 = reconnects w)"
proof -
  have "w2 = w1"
    using assms(2) by (rule recv_empty_unchanged) simp
  then have "receive_only w1 = Some (Inl (RuntimeError died_message), w1)"
    using assms(2) by (simp add: receive_only_def)
  then have "send data w = Some (Inl (RuntimeError ''The server unexpectedly died''), w1)"
    using assms(1) by (simp add: send_def io_then_simps died_message_def)
  then show ?thesis
    using send_only_no_failure [OF _ _ _ assms(1)] by blast
qed

theorem send_peer_terminated_witness:
  "send_only ''ping'' channel0 =
     Some (Inr (), channel0\<lparr>tx_pos := 2, trace := [Sent ''         4'', Sent ''ping'']\<rparr>)
   \<and> recv 10 (channel0\<lparr>tx_pos := 2, trace := [Sent ''         4'', Sent ''ping'']\<rparr>) =
     Some (Inr [], channel0\<lparr>tx_pos := 2, trace := [Sent ''         4'', Sent ''ping'']\<rparr>)
   \<and> send ''ping'' channel0 =
     Some (Inl (RuntimeError ''The server unexpectedly died''),
           channel0\<lparr>tx_pos := 2, trace := [Sent ''         4'', Sent ''ping'']\<rparr>)
   \<and> sock_open channel0 \<and> tx channel0 (tx_pos channel0) = TxOk
   \<and> tx channel0 (Suc (tx_pos channel0)) = TxOk
   \<and> reconnects (channel0\<lparr>tx_pos := 2, trace := [Sent ''         4'', Sent ''ping'']\<rparr>) =
       reconnects channel0"
proof -
  have c: "sock_open channel0" "tx channel0 (tx_pos channel0) = TxOk"
    "tx channel0 (Suc (tx_pos channel0)) = TxOk"
    by (simp_all add: channel0_def)
  have s: "send_only ''ping'' channel0 =
     Some (Inr (), channel0\<lparr>tx_pos := 2, trace := [Sent ''         4'', Sent ''ping'']\<rparr>)"
    using send_only_ping [of channel0] by (simp add: channel0_def)
  have r: "recv 10 (channel0\<lparr>tx_pos := 2, trace := [Sent ''         4'', Sent ''ping'']\<rparr>) =
     Some (Inr [], channel0\<lparr>tx_pos := 2, trace := [Sent ''         4'', Sent ''ping'']\<rparr>)"
    by (simp add: recv_def channel0_def)
  show ?thesis
    using s r c send_peer_terminated [OF s r] by blast
qed

section \<open>An interrupt while waiting for the response\<close>









section \<open>Reconnecting while sending\<close>

lemma recv_trace: "recv n w = Some (r, w') \<Longrightarrow> trace w' = trace w"
  by (auto simp: recv_def split: if_splits rx_event.splits)

lemma receive_all_trace:
  assumes "receive_all n w = Some y"
  shows "trace (snd y) = trace w"
proof (rule receive_all.raw_induct [where P = "\<lambda>n w y. trace (snd y) = trace w", OF _ assms],
    goal_cases)
  case (1 receive_all remaining w y)
  show ?case
  proof (cases "remaining = 0")
    case True
    with 1(2) show ?thesis by auto
  next
    case False
    show ?thesis
    proof (cases "recv remaining w")
      case None
      with 1(2) False show ?thesis by simp
    next
      case (Some p)
      obtain r w1 where p: "p = (r, w1)" by (cases p)
      have t: "trace w1 = trace w" using Some p by (simp add: recv_trace)
      show ?thesis
      proof (cases r)
        case (Inl e)
        with 1(2) False Some p t show ?thesis by auto
      next
        case (Inr data)
        with 1(2) False Some p obtain y' where
          y': "receive_all (remaining - int (length data)) w1 = Some y'" and "snd y = snd y'"
          by (auto simp: bind_eq_Some_conv split: prod.splits)
        with 1(1) [OF y'] t show ?thesis by simp
      qed
    qed
  qed
qed

lemma receive_only_trace: "receive_only w = Some (r, w') \<Longrightarrow> trace w' = trace w"
  by (auto simp: receive_only_def split: option.splits sum.splits if_splits
      dest!: recv_trace receive_all_trace)

lemma send_only_total: "\<exists>r w'. send_only data w = Some (r, w')"
  by (auto simp: send_only_def Let_def io_then_def io_bind_def on_os_error_def print_def
      sendall_def reconnect_def start_def connect_def sock_close_def
      split: sum.splits if_splits tx_event.splits)

lemma send_only_bound:
  "send_only data w = Some (r, w') \<Longrightarrow> reconnects w' \<le> reconnects w + 2"
  by (auto simp: send_only_def Let_def io_then_def io_bind_def on_os_error_def print_def
      sendall_def reconnect_def start_def connect_def sock_close_def reconnects_def
      split: sum.splits if_splits tx_event.splits)

lemma send_bound:
  assumes "send data w = Some (r, w')"
  shows "reconnects w' \<le> reconnects w + 2"
proof -
  obtain r1 w1 where s: "send_only data w = Some (r1, w1)"
    using send_only_total by blast
  have b: "reconnects w1 \<le> reconnects w + 2" using s by (rule send_only_bound)
  show ?thesis
  proof (cases r1)
    case (Inl e)
    with assms s b show ?thesis by (simp add: send_def io_then_simps)
  next
    case (Inr u)
    with assms s have "receive_only w1 = Some (r, w')" by (simp add: send_def io_then_simps)
    then have "trace w' = trace w1" by (rule receive_only_trace)
    with b show ?thesis by (simp add: reconnects_def)
  qed
qed

lemma send_only_success_traces:
  "send_only data w = Some (Inr (), w1) \<Longrightarrow>
   \<exists>byte. encode data = Inr byte \<and>
     (trace w1 = trace w @ [Sent (format_len (length byte)), Sent byte]
      \<or> trace w1 = trace w @ [Printed ''attempting to reconnect'', Closed, Connect,
            Sent (format_len (length byte)), Sent byte]
      \<or> trace w1 = trace w @ [Sent (format_len (length byte)),
            Printed ''attempting to reconnect'', Closed, Connect,
            Sent (format_len (length byte)), Sent byte]
      \<or> trace w1 = trace w @ [Printed ''attempting to reconnect'', Closed, Connect,
            Sent (format_len (length byte)),
            Printed ''attempting to reconnect'', Closed, Connect,
            Sent (format_len (length byte)), Sent byte])"
  by (auto simp: send_only_def Let_def io_then_def io_bind_def on_os_error_def print_def
      sendall_def reconnect_def start_def connect_def sock_close_def
      split: sum.splits if_splits tx_event.splits)

lemma send_only_error_after_reconnect:
  "send_only data w = Some (Inl e, w') \<Longrightarrow> e = OSError \<or> e = BrokenPipeError \<Longrightarrow>
   reconnects w < reconnects w'"
  by (auto simp: send_only_def Let_def io_then_def io_bind_def on_os_error_def print_def
      sendall_def reconnect_def start_def connect_def sock_close_def reconnects_def encode_def
      split: sum.splits if_splits tx_event.splits)

lemma two_failures_send_only:
  "send_only ''ping'' channel_two_failures =
     Some (Inr (), channel_two_failures\<lparr>tx_pos := 5, conn_pos := 2,
        trace := [Printed ''attempting to reconnect'', Closed, Connect, Sent ''         4'',
                  Printed ''attempting to reconnect'', Closed, Connect, Sent ''         4'',
                  Sent ''ping'']\<rparr>)"
  by (simp add: send_only_def encode_ping format_len_4 io_then_def io_bind_def on_os_error_def
      sendall_def print_def reconnect_def start_def connect_def sock_close_def
      channel_two_failures_def channel0_def scripted_def Let_def eval_nat_numeral)

lemma two_failures_receive_only:
  "receive_only (channel_two_failures\<lparr>tx_pos := 5, conn_pos := 2,
        trace := [Printed ''attempting to reconnect'', Closed, Connect, Sent ''         4'',
                  Printed ''attempting to reconnect'', Closed, Connect, Sent ''         4'',
                  Sent ''ping'']\<rparr>) =
     Some (Inr ''ok'', channel_two_failures\<lparr>tx_pos := 5, conn_pos := 2, rx_pos := 1,
        trace := [Printed ''attempting to reconnect'', Closed, Connect, Sent ''         4'',
                  Printed ''attempting to reconnect'', Closed, Connect, Sent ''         4'',
                  Sent ''ping'']\<rparr>)"
proof -
  have h: "recv 10 (channel_two_failures\<lparr>tx_pos := 5, conn_pos := 2,
        trace := [Printed ''attempting to reconnect'', Closed, Connect, Sent ''         4'',
                  Printed ''attempting to reconnect'', Closed, Connect, Sent ''         4'',
                  Sent ''ping'']\<rparr>) =
     Some (Inr ''        10'', channel_two_failures\<lparr>tx_pos := 5, conn_pos := 2, rx_pos := 1,
        pending := ''success ok'',
        trace := [Printed ''attempting to reconnect'', Closed, Connect, Sent ''         4'',
                  Printed ''attempting to reconnect'', Closed, Connect, Sent ''         4'',
                  Sent ''ping'']\<rparr>)"
    by (simp add: recv_def channel_two_failures_def channel0_def scripted_def)
  have b: "receive_all 10 (channel_two_failures\<lparr>tx_pos := 5, conn_pos := 2, rx_pos := 1,
        pending := ''success ok'',
        trace := [Printed ''attempting to reconnect'', Closed, Connect, Sent ''         4'',
                  Printed ''attempting to reconnect'', Closed, Connect, Sent ''         4'',
                  Sent ''ping'']\<rparr>) =
     Some (Inr [''success ok''], channel_two_failures\<lparr>tx_pos := 5, conn_pos := 2, rx_pos := 1,
        trace := [Printed ''attempting to reconnect'', Closed, Connect, Sent ''         4'',
                  Printed ''attempting to reconnect'', Closed, Connect, Sent ''         4'',
                  Sent ''ping'']\<rparr>)"
    apply (subst receive_all.simps)
    apply (simp add: recv_def channel_two_failures_def channel0_def)
    apply (subst receive_all.simps)
    apply simp
    done
  have d: "decode ''success ok'' = Inr ''success ok''"
    by (simp add: decode_def byte_in_def)
  have r: "decode_response ''success ok'' = Inr ''ok''"
    by (simp add: decode_response_def split1_def)
  show ?thesis
    using h b d r py_int_10 by (simp add: receive_only_def)
qed

lemma failing_retry_send_only:
  "send_only ''ping'' (channel0\<lparr>tx := (\<lambda>_. TxOSError)\<rparr>) =
     Some (Inl OSError, channel0\<lparr>tx := (\<lambda>_. TxOSError), tx_pos := 2, conn_pos := 1,
        trace := [Printed ''attempting to reconnect'', Closed, Connect]\<rparr>)"
  by (simp add: send_only_def encode_ping format_len_4 io_then_def io_bind_def on_os_error_def
      sendall_def print_def reconnect_def start_def connect_def sock_close_def
      channel0_def Let_def eval_nat_numeral)

lemma sendall_open:
  "sock_open v \<Longrightarrow>
   sendall b v =
     (case tx v (tx_pos v) of
        TxOk \<Rightarrow> Some (Inr (), v\<lparr>tx_pos := Suc (tx_pos v), trace := trace v @ [Sent b]\<rparr>)
      | TxBrokenPipe \<Rightarrow> Some (Inl BrokenPipeError, v\<lparr>tx_pos := Suc (tx_pos v)\<rparr>)
      | TxOSError \<Rightarrow> Some (Inl OSError, v\<lparr>tx_pos := Suc (tx_pos v)\<rparr>))"
  by (simp add: sendall_def)

lemma send_only_first_accepted:
  assumes "encode data = Inr byte" and "int (length byte) \<le> max_transmission_length w"
    and "sock_open w" and "tx w (tx_pos w) = TxOk"
  shows "(tx w (tx_pos w + 1) = TxOk \<longrightarrow>
          (\<exists>v. send_only data w = Some (Inr (), v)
             \<and> trace v = trace w @ [Sent (format_len (length byte)), Sent byte]))
       \<and> (tx w (tx_pos w + 1) \<noteq> TxOk \<and> \<not> conn w (conn_pos w) \<longrightarrow>
          (\<exists>v. send_only data w = Some (Inl OSError, v)
             \<and> trace v = trace w @ [Sent (format_len (length byte)),
                  Printed ''attempting to reconnect'', Closed, Connect]))
       \<and> (tx w (tx_pos w + 1) \<noteq> TxOk \<and> conn w (conn_pos w) \<and> tx w (tx_pos w + 2) \<noteq> TxOk \<longrightarrow>
          (\<exists>x v. (x = OSError \<or> x = BrokenPipeError) \<and> send_only data w = Some (Inl x, v)
             \<and> trace v = trace w @ [Sent (format_len (length byte)),
                  Printed ''attempting to reconnect'', Closed, Connect]))
       \<and> (tx w (tx_pos w + 1) \<noteq> TxOk \<and> conn w (conn_pos w) \<and> tx w (tx_pos w + 2) = TxOk
            \<and> tx w (tx_pos w + 3) \<noteq> TxOk \<longrightarrow>
          (\<exists>x v. (x = OSError \<or> x = BrokenPipeError) \<and> send_only data w = Some (Inl x, v)
             \<and> trace v = trace w @ [Sent (format_len (length byte)),
                  Printed ''attempting to reconnect'', Closed, Connect,
                  Sent (format_len (length byte))]))
       \<and> (tx w (tx_pos w + 1) \<noteq> TxOk \<and> conn w (conn_pos w) \<and> tx w (tx_pos w + 2) = TxOk
            \<and> tx w (tx_pos w + 3) = TxOk \<longrightarrow>
          (\<exists>v. send_only data w = Some (Inr (), v)
             \<and> trace v = trace w @ [Sent (format_len (length byte)),
                  Printed ''attempting to reconnect'', Closed, Connect,
                  Sent (format_len (length byte)), Sent byte]))"
  using assms
  by (cases "tx w (Suc (tx_pos w))"; cases "tx w (Suc (Suc (tx_pos w)))";
      cases "tx w (Suc (Suc (Suc (tx_pos w))))")
    (simp_all add: send_only_def Let_def io_then_def io_bind_def on_os_error_def print_def
      sendall_def reconnect_def start_def connect_def sock_close_def eval_nat_numeral)

lemma send_only_first_refused:
  assumes "encode data = Inr byte" and "int (length byte) \<le> max_transmission_length w"
    and "\<not> (sock_open w \<and> tx w (tx_pos w) = TxOk)"
    and "p = (if sock_open w then Suc (tx_pos w) else tx_pos w)"
  shows "(\<not> conn w (conn_pos w) \<longrightarrow>
          (\<exists>v. send_only data w = Some (Inl OSError, v)
             \<and> trace v = trace w @ [Printed ''attempting to reconnect'', Closed, Connect]))
       \<and> (conn w (conn_pos w) \<and> tx w p \<noteq> TxOk \<longrightarrow>
          (\<exists>x v. (x = OSError \<or> x = BrokenPipeError) \<and> send_only data w = Some (Inl x, v)
             \<and> trace v = trace w @ [Printed ''attempting to reconnect'', Closed, Connect]))
       \<and> (conn w (conn_pos w) \<and> tx w p = TxOk \<and> tx w (p + 1) = TxOk \<longrightarrow>
          (\<exists>v. send_only data w = Some (Inr (), v)
             \<and> trace v = trace w @ [Printed ''attempting to reconnect'', Closed, Connect,
                  Sent (format_len (length byte)), Sent byte]))
       \<and> (conn w (conn_pos w) \<and> tx w p = TxOk \<and> tx w (p + 1) \<noteq> TxOk
            \<and> \<not> conn w (conn_pos w + 1) \<longrightarrow>
          (\<exists>v. send_only data w = Some (Inl OSError, v)
             \<and> trace v = trace w @ [Printed ''attempting to reconnect'', Closed, Connect,
                  Sent (format_len (length byte)),
                  Printed ''attempting to reconnect'', Closed, Connect]))
       \<and> (conn w (conn_pos w) \<and> tx w p = TxOk \<and> tx w (p + 1) \<noteq> TxOk
            \<and> conn w (conn_pos w + 1) \<and> tx w (p + 2) \<noteq> TxOk \<longrightarrow>
          (\<exists>x v. (x = OSError \<or> x = BrokenPipeError) \<and> send_only data w = Some (Inl x, v)
             \<and> trace v = trace w @ [Printed ''attempting to reconnect'', Closed, Connect,
                  Sent (format_len (length byte)),
                  Printed ''attempting to reconnect'', Closed, Connect]))
       \<and> (conn w (conn_pos w) \<and> tx w p = TxOk \<and> tx w (p + 1) \<noteq> TxOk
            \<and> conn w (conn_pos w + 1) \<and> tx w (p + 2) = TxOk \<and> tx w (p + 3) \<noteq> TxOk \<longrightarrow>
          (\<exists>x v. (x = OSError \<or> x = BrokenPipeError) \<and> send_only data w = Some (Inl x, v)
             \<and> trace v = trace w @ [Printed ''attempting to reconnect'', Closed, Connect,
                  Sent (format_len (length byte)),
                  Printed ''attempting to reconnect'', Closed, Connect,
                  Sent (format_len (length byte))]))
       \<and> (conn w (conn_pos w) \<and> tx w p = TxOk \<and> tx w (p + 1) \<noteq> TxOk
            \<and> conn w (conn_pos w + 1) \<and> tx w (p + 2) = TxOk \<and> tx w (p + 3) = TxOk \<longrightarrow>
          (\<exists>v. send_only data w = Some (Inr (), v)
             \<and> trace v = trace w @ [Printed ''attempting to reconnect'', Closed, Connect,
                  Sent (format_len (length byte)),
                  Printed ''attempting to reconnect'', Closed, Connect,
                  Sent (format_len (length byte)), Sent byte]))"
proof -
  have "\<exists>x. (x = OSError \<or> x = BrokenPipeError)
      \<and> sendall (format_len (length byte)) w = Some (Inl x, w\<lparr>tx_pos := p\<rparr>)"
    using assms(3,4) by (cases "tx w (tx_pos w)") (auto simp: sendall_def)
  then obtain x where x: "x = OSError \<or> x = BrokenPipeError"
    and s: "sendall (format_len (length byte)) w = Some (Inl x, w\<lparr>tx_pos := p\<rparr>)"
    by blast
  from x show ?thesis
  proof
    assume "x = OSError"
    with assms(1,2) s show ?thesis
      by (cases "tx w p"; cases "tx w (Suc p)"; cases "tx w (Suc (Suc p))";
          cases "tx w (Suc (Suc (Suc p)))")
        (simp_all add: send_only_def Let_def io_then_def io_bind_def on_os_error_def
          print_def sendall_open reconnect_def start_def connect_def sock_close_def
          eval_nat_numeral)
  next
    assume "x = BrokenPipeError"
    with assms(1,2) s show ?thesis
      by (cases "tx w p"; cases "tx w (Suc p)"; cases "tx w (Suc (Suc p))";
          cases "tx w (Suc (Suc (Suc p)))")
        (simp_all add: send_only_def Let_def io_then_def io_bind_def on_os_error_def
          print_def sendall_open reconnect_def start_def connect_def sock_close_def
          eval_nat_numeral)
  qed
qed

text \<open>
  Claim C1, as the code has it. Each of the two writes stands in a \<open>try\<close> of its own.
  When the write of the length prefix fails with a transport error, one \<open>reconnect\<close>
  follows and the prefix is written again; when the write of the payload fails, one
  \<open>reconnect\<close> follows and prefix and payload are written again. An error of
  \<open>reconnect\<close> or of a write inside a handler reaches the caller. So a call performs at
  most two reconnects (none when no write fails); when the write phase ends normally,
  its writes are one of four sequences, each ending with the prefix and the payload
  written one after the other on the connection then current; and a transport error
  leaves the write phase only after a reconnect was attempted. The last two conjuncts
  give the outcome of the write phase for every course of the socket: what is written,
  closed and connected, in order, and whether the phase ends normally or with which
  error, first when the first write is accepted, then when it is refused (\<open>p\<close> is the
  place in the script of the next write).
\<close>

theorem send_reconnects:
  "(send data w = Some (r, w') \<longrightarrow> reconnects w' \<le> reconnects w + 2)
   \<and> (send_only data w = Some (Inr (), w1) \<longrightarrow>
        (\<exists>byte. encode data = Inr byte \<and>
           (trace w1 = trace w @ [Sent (format_len (length byte)), Sent byte]
            \<or> trace w1 = trace w @ [Printed ''attempting to reconnect'', Closed, Connect,
                  Sent (format_len (length byte)), Sent byte]
            \<or> trace w1 = trace w @ [Sent (format_len (length byte)),
                  Printed ''attempting to reconnect'', Closed, Connect,
                  Sent (format_len (length byte)), Sent byte]
            \<or> trace w1 = trace w @ [Printed ''attempting to reconnect'', Closed, Connect,
                  Sent (format_len (length byte)),
                  Printed ''attempting to reconnect'', Closed, Connect,
                  Sent (format_len (length byte)), Sent byte])))
   \<and> (send_only data w = Some (Inl e, w2) \<and> (e = OSError \<or> e = BrokenPipeError) \<longrightarrow>
        reconnects w < reconnects w2)
   \<and> (sock_open w \<and> tx w (tx_pos w) = TxOk \<and> tx w (Suc (tx_pos w)) = TxOk
        \<and> send_only data w = Some (r3, w3) \<longrightarrow> reconnects w3 = reconnects w)
   \<and> (encode data = Inr byte \<and> int (length byte) \<le> max_transmission_length w
        \<and> sock_open w \<and> tx w (tx_pos w) = TxOk \<longrightarrow>
  (tx w (tx_pos w + 1) = TxOk \<longrightarrow>
            (\<exists>v. send_only data w = Some (Inr (), v)
               \<and> trace v = trace w @ [Sent (format_len (length byte)), Sent byte]))
         \<and> (tx w (tx_pos w + 1) \<noteq> TxOk \<and> \<not> conn w (conn_pos w) \<longrightarrow>
            (\<exists>v. send_only data w = Some (Inl OSError, v)
               \<and> trace v = trace w @ [Sent (format_len (length byte)),
                    Printed ''attempting to reconnect'', Closed, Connect]))
         \<and> (tx w (tx_pos w + 1) \<noteq> TxOk \<and> conn w (conn_pos w) \<and> tx w (tx_pos w + 2) \<noteq> TxOk \<longrightarrow>
            (\<exists>x v. (x = OSError \<or> x = BrokenPipeError) \<and> send_only data w = Some (Inl x, v)
               \<and> trace v = trace w @ [Sent (format_len (length byte)),
                    Printed ''attempting to reconnect'', Closed, Connect]))
         \<and> (tx w (tx_pos w + 1) \<noteq> TxOk \<and> conn w (conn_pos w) \<and> tx w (tx_pos w + 2) = TxOk
              \<and> tx w (tx_pos w + 3) \<noteq> TxOk \<longrightarrow>
            (\<exists>x v. (x = OSError \<or> x = BrokenPipeError) \<and> send_only data w = Some (Inl x, v)
               \<and> trace v = trace w @ [Sent (format_len (length byte)),
                    Printed ''attempting to reconnect'', Closed, Connect,
                    Sent (format_len (length byte))]))
         \<and> (tx w (tx_pos w + 1) \<noteq> TxOk \<and> conn w (conn_pos w) \<and> tx w (tx_pos w + 2) = TxOk
              \<and> tx w (tx_pos w + 3) = TxOk \<longrightarrow>
            (\<exists>v. send_only data w = Some (Inr (), v)
               \<and> trace v = trace w @ [Sent (format_len (length byte)),
                    Printed ''attempting to reconnect'', Closed, Connect,
                    Sent (format_len (length byte)), Sent byte])))
   \<and> (encode data = Inr byte \<and> int (length byte) \<le> max_transmission_length w
        \<and> \<not> (sock_open w \<and> tx w (tx_pos w) = TxOk)
        \<and> p = (if sock_open w then Suc (tx_pos w) else tx_pos w) \<longrightarrow>
  (\<not> conn w (conn_pos w) \<longrightarrow>
            (\<exists>v. send_only data w = Some (Inl OSError, v)
               \<and> trace v = trace w @ [Printed ''attempting to reconnect'', Closed, Connect]))
         \<and> (conn w (conn_pos w) \<and> tx w p \<noteq> TxOk \<longrightarrow>
            (\<exists>x v. (x = OSError \<or> x = BrokenPipeError) \<and> send_only data w = Some (Inl x, v)
               \<and> trace v = trace w @ [Printed ''attempting to reconnect'', Closed, Connect]))
         \<and> (conn w (conn_pos w) \<and> tx w p = TxOk \<and> tx w (p + 1) = TxOk \<longrightarrow>
            (\<exists>v. send_only data w = Some (Inr (), v)
               \<and> trace v = trace w @ [Printed ''attempting to reconnect'', Closed, Connect,
                    Sent (format_len (length byte)), Sent byte]))
         \<and> (conn w (conn_pos w) \<and> tx w p = TxOk \<and> tx w (p + 1) \<noteq> TxOk
              \<and> \<not> conn w (conn_pos w + 1) \<longrightarrow>
            (\<exists>v. send_only data w = Some (Inl OSError, v)
               \<and> trace v = trace w @ [Printed ''attempting to reconnect'', Closed, Connect,
                    Sent (format_len (length byte)),
                    Printed ''attempting to reconnect'', Closed, Connect]))
         \<and> (conn w (conn_pos w) \<and> tx w p = TxOk \<and> tx w (p + 1) \<noteq> TxOk
              \<and> conn w (conn_pos w + 1) \<and> tx w (p + 2) \<noteq> TxOk \<longrightarrow>
            (\<exists>x v. (x = OSError \<or> x = BrokenPipeError) \<and> send_only data w = Some (Inl x, v)
               \<and> trace v = trace w @ [Printed ''attempting to reconnect'', Closed, Connect,
                    Sent (format_len (length byte)),
                    Printed ''attempting to reconnect'', Closed, Connect]))
         \<and> (conn w (conn_pos w) \<and> tx w p = TxOk \<and> tx w (p + 1) \<noteq> TxOk
              \<and> conn w (conn_pos w + 1) \<and> tx w (p + 2) = TxOk \<and> tx w (p + 3) \<noteq> TxOk \<longrightarrow>
            (\<exists>x v. (x = OSError \<or> x = BrokenPipeError) \<and> send_only data w = Some (Inl x, v)
               \<and> trace v = trace w @ [Printed ''attempting to reconnect'', Closed, Connect,
                    Sent (format_len (length byte)),
                    Printed ''attempting to reconnect'', Closed, Connect,
                    Sent (format_len (length byte))]))
         \<and> (conn w (conn_pos w) \<and> tx w p = TxOk \<and> tx w (p + 1) \<noteq> TxOk
              \<and> conn w (conn_pos w + 1) \<and> tx w (p + 2) = TxOk \<and> tx w (p + 3) = TxOk \<longrightarrow>
            (\<exists>v. send_only data w = Some (Inr (), v)
               \<and> trace v = trace w @ [Printed ''attempting to reconnect'', Closed, Connect,
                    Sent (format_len (length byte)),
                    Printed ''attempting to reconnect'', Closed, Connect,
                    Sent (format_len (length byte)), Sent byte])))"
  using send_bound [of data w r w'] send_only_success_traces [of data w w1]
    send_only_error_after_reconnect [of data w e w2] send_only_no_failure [of w data r3 w3]
    send_only_first_accepted [of data byte w] send_only_first_refused [of data byte w p]
  by blast

theorem send_reconnects_witness:
  "send ''ping'' channel_two_failures =
     Some (Inr ''ok'', channel_two_failures\<lparr>tx_pos := 5, conn_pos := 2, rx_pos := 1,
        trace := [Printed ''attempting to reconnect'', Closed, Connect, Sent ''         4'',
                  Printed ''attempting to reconnect'', Closed, Connect, Sent ''         4'',
                  Sent ''ping'']\<rparr>)
   \<and> reconnects (channel_two_failures\<lparr>tx_pos := 5, conn_pos := 2, rx_pos := 1,
        trace := [Printed ''attempting to reconnect'', Closed, Connect, Sent ''         4'',
                  Printed ''attempting to reconnect'', Closed, Connect, Sent ''         4'',
                  Sent ''ping'']\<rparr>) \<le> reconnects channel_two_failures + 2
   \<and> send_only ''ping'' (channel0\<lparr>tx := (\<lambda>_. TxOSError)\<rparr>) =
     Some (Inl OSError, channel0\<lparr>tx := (\<lambda>_. TxOSError), tx_pos := 2, conn_pos := 1,
        trace := [Printed ''attempting to reconnect'', Closed, Connect]\<rparr>)
   \<and> reconnects (channel0\<lparr>tx := (\<lambda>_. TxOSError)\<rparr>)
       < reconnects (channel0\<lparr>tx := (\<lambda>_. TxOSError), tx_pos := 2, conn_pos := 1,
           trace := [Printed ''attempting to reconnect'', Closed, Connect]\<rparr>)
   \<and> sock_open channel0 \<and> tx channel0 (tx_pos channel0) = TxOk
   \<and> tx channel0 (Suc (tx_pos channel0)) = TxOk
   \<and> send_only ''ping'' channel0 =
     Some (Inr (), channel0\<lparr>tx_pos := 2, trace := [Sent ''         4'', Sent ''ping'']\<rparr>)
   \<and> reconnects (channel0\<lparr>tx_pos := 2, trace := [Sent ''         4'', Sent ''ping'']\<rparr>) =
       reconnects channel0
   \<and> encode ''ping'' = Inr ''ping''
   \<and> tx (channel0\<lparr>tx := scripted [TxOk, TxBrokenPipe] TxOk\<rparr>) 1 = TxBrokenPipe
   \<and> (\<exists>v. send_only ''ping'' (channel0\<lparr>tx := scripted [TxOk, TxBrokenPipe] TxOk\<rparr>) =
            Some (Inr (), v)
          \<and> trace v = [Sent ''         4'', Printed ''attempting to reconnect'', Closed, Connect,
                       Sent ''         4'', Sent ''ping''])
   \<and> tx (channel0\<lparr>tx := scripted [TxOSError] TxOk\<rparr>) 0 = TxOSError
   \<and> (\<exists>v. send_only ''ping'' (channel0\<lparr>tx := scripted [TxOSError] TxOk\<rparr>) = Some (Inr (), v)
          \<and> trace v = [Printed ''attempting to reconnect'', Closed, Connect,
                       Sent ''         4'', Sent ''ping''])
   \<and> (\<exists>v. send_only ''ping'' (channel0\<lparr>tx := (\<lambda>_. TxOSError), conn := (\<lambda>_. False)\<rparr>) =
            Some (Inl OSError, v)
          \<and> trace v = [Printed ''attempting to reconnect'', Closed, Connect])
   \<and> (\<exists>v. send_only ''ping'' channel_two_failures = Some (Inr (), v)
          \<and> trace v = [Printed ''attempting to reconnect'', Closed, Connect, Sent ''         4'',
                       Printed ''attempting to reconnect'', Closed, Connect, Sent ''         4'',
                       Sent ''ping''])"
proof -
  let ?wa = "channel0\<lparr>tx := scripted [TxOk, TxBrokenPipe] TxOk\<rparr>"
  let ?wb = "channel0\<lparr>tx := scripted [TxOSError] TxOk\<rparr>"
  let ?wf = "channel0\<lparr>tx := (\<lambda>_. TxOSError), conn := (\<lambda>_. False)\<rparr>"
  have a: "send ''ping'' channel_two_failures =
     Some (Inr ''ok'', channel_two_failures\<lparr>tx_pos := 5, conn_pos := 2, rx_pos := 1,
        trace := [Printed ''attempting to reconnect'', Closed, Connect, Sent ''         4'',
                  Printed ''attempting to reconnect'', Closed, Connect, Sent ''         4'',
                  Sent ''ping'']\<rparr>)"
    using two_failures_send_only two_failures_receive_only
    by (simp add: send_def io_then_simps)
  have b: "send_only ''ping'' channel0 =
     Some (Inr (), channel0\<lparr>tx_pos := 2, trace := [Sent ''         4'', Sent ''ping'']\<rparr>)"
    using send_only_ping [of channel0] by (simp add: channel0_def)
  have c: "sock_open channel0" "tx channel0 (tx_pos channel0) = TxOk"
    "tx channel0 (Suc (tx_pos channel0)) = TxOk"
    by (simp_all add: channel0_def)
  have old: "reconnects (channel_two_failures\<lparr>tx_pos := 5, conn_pos := 2, rx_pos := 1,
        trace := [Printed ''attempting to reconnect'', Closed, Connect, Sent ''         4'',
                  Printed ''attempting to reconnect'', Closed, Connect, Sent ''         4'',
                  Sent ''ping'']\<rparr>) \<le> reconnects channel_two_failures + 2
   \<and> reconnects (channel0\<lparr>tx := (\<lambda>_. TxOSError)\<rparr>)
       < reconnects (channel0\<lparr>tx := (\<lambda>_. TxOSError), tx_pos := 2, conn_pos := 1,
           trace := [Printed ''attempting to reconnect'', Closed, Connect]\<rparr>)
   \<and> reconnects (channel0\<lparr>tx_pos := 2, trace := [Sent ''         4'', Sent ''ping'']\<rparr>) =
       reconnects channel0"
    using a b c failing_retry_send_only
      send_reconnects [where data = "''ping''" and w = channel_two_failures, THEN conjunct1]
      send_reconnects [where data = "''ping''" and w = "channel0\<lparr>tx := (\<lambda>_. TxOSError)\<rparr>"
          and e = OSError, THEN conjunct2, THEN conjunct2, THEN conjunct1]
      send_reconnects [where data = "''ping''" and w = channel0,
          THEN conjunct2, THEN conjunct2, THEN conjunct2, THEN conjunct1]
    by blast
  have ta: "tx ?wa 1 = TxBrokenPipe" and tb: "tx ?wb 0 = TxOSError"
    by (simp_all add: scripted_def)
  have na: "\<exists>v. send_only ''ping'' ?wa = Some (Inr (), v)
          \<and> trace v = [Sent ''         4'', Printed ''attempting to reconnect'', Closed, Connect,
                       Sent ''         4'', Sent ''ping'']"
    using send_reconnects [where data = "''ping''" and w = ?wa and byte = "''ping''",
        THEN conjunct2, THEN conjunct2, THEN conjunct2, THEN conjunct2, THEN conjunct1]
      encode_ping
    by (simp add: channel0_def scripted_def format_len_4 eval_nat_numeral)
  have nb: "\<exists>v. send_only ''ping'' ?wb = Some (Inr (), v)
          \<and> trace v = [Printed ''attempting to reconnect'', Closed, Connect,
                       Sent ''         4'', Sent ''ping'']"
    using send_reconnects [where data = "''ping''" and w = ?wb and byte = "''ping''"
          and p = 1,
        THEN conjunct2, THEN conjunct2, THEN conjunct2, THEN conjunct2, THEN conjunct2]
      encode_ping
    by (simp add: channel0_def scripted_def format_len_4 eval_nat_numeral)
  have nf: "\<exists>v. send_only ''ping'' ?wf = Some (Inl OSError, v)
          \<and> trace v = [Printed ''attempting to reconnect'', Closed, Connect]"
    using send_reconnects [where data = "''ping''" and w = ?wf and byte = "''ping''"
          and p = 1,
        THEN conjunct2, THEN conjunct2, THEN conjunct2, THEN conjunct2, THEN conjunct2]
      encode_ping
    by (simp add: channel0_def)
  have nt: "\<exists>v. send_only ''ping'' channel_two_failures = Some (Inr (), v)
          \<and> trace v = [Printed ''attempting to reconnect'', Closed, Connect, Sent ''         4'',
                       Printed ''attempting to reconnect'', Closed, Connect, Sent ''         4'',
                       Sent ''ping'']"
    using send_reconnects [where data = "''ping''" and w = channel_two_failures
          and byte = "''ping''" and p = 1,
        THEN conjunct2, THEN conjunct2, THEN conjunct2, THEN conjunct2, THEN conjunct2]
      encode_ping
    by (simp add: channel_two_failures_def channel0_def scripted_def format_len_4
        eval_nat_numeral)
  show ?thesis
    using a b c old failing_retry_send_only encode_ping ta tb na nb nf nt
    by simp
qed

text \<open>In one call of \<open>send\<close>, which returns the response \<open>ok\<close>, two reconnects are
  performed.\<close>

theorem send_two_reconnects_counterexample:
  "reconnects channel_two_failures = 0
   \<and> send ''ping'' channel_two_failures =
     Some (Inr ''ok'', channel_two_failures\<lparr>tx_pos := 5, conn_pos := 2, rx_pos := 1,
        trace := [Printed ''attempting to reconnect'', Closed, Connect, Sent ''         4'',
                  Printed ''attempting to reconnect'', Closed, Connect, Sent ''         4'',
                  Sent ''ping'']\<rparr>)
   \<and> reconnects (channel_two_failures\<lparr>tx_pos := 5, conn_pos := 2, rx_pos := 1,
        trace := [Printed ''attempting to reconnect'', Closed, Connect, Sent ''         4'',
                  Printed ''attempting to reconnect'', Closed, Connect, Sent ''         4'',
                  Sent ''ping'']\<rparr>) = 2"
  using two_failures_send_only two_failures_receive_only
  by (simp add: send_def io_then_simps reconnects_def channel_two_failures_def channel0_def)

section \<open>The loop that accumulates the body\<close>

lemma recv_length:
  "recv n w = Some (Inr data, w') \<Longrightarrow> int (length data) \<le> n"
  by (auto simp: recv_def split: if_splits rx_event.splits)

lemma receive_all_step:
  "remaining \<noteq> 0 \<Longrightarrow> recv remaining w = Some (Inr data, w1) \<Longrightarrow>
   receive_all remaining w =
     Option.bind (receive_all (remaining - int (length data)) w1)
       (\<lambda>(r, w''). Some (case r of Inl e \<Rightarrow> Inl e | Inr chunks \<Rightarrow> Inr (data # chunks), w''))"
  by (subst receive_all.simps) simp

lemma receive_all_total_length:
  assumes "receive_all n w = Some y"
  shows "\<forall>chunks. fst y = Inr chunks \<longrightarrow> int (length (concat chunks)) = n"
proof (rule receive_all.raw_induct
    [where P = "\<lambda>n w y. \<forall>chunks. fst y = Inr chunks \<longrightarrow> int (length (concat chunks)) = n",
      OF _ assms], goal_cases)
  case (1 receive_all remaining w y)
  show ?case
  proof (cases "remaining = 0")
    case True
    with 1(2) show ?thesis by auto
  next
    case False
    show ?thesis
    proof (cases "recv remaining w")
      case None
      with 1(2) False show ?thesis by simp
    next
      case (Some p)
      obtain r w1 where p: "p = (r, w1)" by (cases p)
      show ?thesis
      proof (cases r)
        case (Inl e)
        with 1(2) False Some p show ?thesis by auto
      next
        case (Inr data)
        with 1(2) False Some p obtain r' w2 where
          y': "receive_all (remaining - int (length data)) w1 = Some (r', w2)"
          and y: "y = (case r' of Inl e \<Rightarrow> Inl e | Inr chunks \<Rightarrow> Inr (data # chunks), w2)"
          by (auto simp: bind_eq_Some_conv split: prod.splits)
        from 1(1) [OF y'] y show ?thesis
          by (auto split: sum.splits)
      qed
    qed
  qed
qed

lemma receive_all_closed_diverges:
  assumes "recv n w = Some (Inr [], w1)" and "0 < n"
  shows "receive_all n w = None"
proof -
  have w1: "w1 = w"
    using assms by (rule recv_empty_unchanged)
  have "\<not> (0 < n \<and> recv n w = Some (Inr [], w))" if "receive_all n w = Some y" for y
  proof (rule receive_all.raw_induct
      [where P = "\<lambda>n w y. \<not> (0 < n \<and> recv n w = Some (Inr [], w))", OF _ that], goal_cases)
    case (1 receive_all remaining w y)
    show ?case
    proof
      assume a: "0 < remaining \<and> recv remaining w = Some (Inr [], w)"
      with 1(2) obtain y' where "receive_all remaining w = Some y'"
        by (auto simp: bind_eq_Some_conv)
      from 1(1) [OF this] a show False by simp
    qed
  qed
  with assms w1 show ?thesis
    by (cases "receive_all n w") auto
qed

lemma arriving_cong:
  "rx w = rx v \<Longrightarrow> rx_pos w = rx_pos v \<Longrightarrow> arriving w k = arriving v k"
proof (induction k arbitrary: w v)
  case 0
  show ?case by simp
next
  case (Suc k)
  have "arriving (w\<lparr>rx_pos := Suc (rx_pos w)\<rparr>) k = arriving (v\<lparr>rx_pos := Suc (rx_pos v)\<rparr>) k"
    using Suc.prems by (intro Suc.IH) simp_all
  with Suc.prems show ?case by (simp split: rx_event.splits)
qed

lemma arriving_pending [simp]: "arriving (w\<lparr>pending := p\<rparr>) k = arriving w k"
  by (rule arriving_cong) simp_all

lemma arriving_Suc:
  "arriving w (Suc k) = Some bs \<Longrightarrow>
   \<exists>d r. rx w (rx_pos w) = RxData d \<and> d \<noteq> [] \<and> bs = d @ r
     \<and> arriving (w\<lparr>rx_pos := Suc (rx_pos w)\<rparr>) k = Some r"
  by (auto split: rx_event.splits if_splits)

lemma receive_all_supplied:
  "sock_open w \<Longrightarrow> arriving w k = Some bs \<Longrightarrow> n \<le> length (pending w @ bs) \<Longrightarrow>
   \<exists>chunks w'. receive_all (int n) w = Some (Inr chunks, w')
      \<and> concat chunks = take n (pending w @ bs)"
proof (induction n arbitrary: w k bs rule: less_induct)
  case (less n)
  show ?case
  proof (cases "n = 0")
    case True
    then show ?thesis by (subst receive_all.simps) simp
  next
    case n: False
    show ?thesis
    proof (cases "pending w = []")
      case False
      let ?data = "take n (pending w)"
      let ?w1 = "w\<lparr>pending := drop n (pending w)\<rparr>"
      have r: "recv (int n) w = Some (Inr ?data, ?w1)"
        using n False less.prems(1) by (simp add: recv_def)
      have pos: "0 < length ?data" using n False by simp
      have "\<exists>chunks w'. receive_all (int (n - length ?data)) ?w1 = Some (Inr chunks, w')
          \<and> concat chunks = take (n - length ?data) (pending ?w1 @ bs)"
        using less.prems n pos
        by (intro less.IH [where k = k]) auto
      then obtain chunks w' where
        c: "receive_all (int (n - length ?data)) ?w1 = Some (Inr chunks, w')"
        and t: "concat chunks = take (n - length ?data) (pending ?w1 @ bs)"
        by blast
      have i: "int n - int (length ?data) = int (n - length ?data)" by simp
      have "receive_all (int n) w = Some (Inr (?data # chunks), w')"
        using receive_all_step [OF _ r] n c by (simp only: i) simp
      moreover have "concat (?data # chunks) = take n (pending w @ bs)"
        using t by (auto simp: min_def not_le)
      ultimately show ?thesis by blast
    next
      case True
      with less.prems n have "bs \<noteq> []" by auto
      with less.prems(2) obtain k' where k: "k = Suc k'"
        by (cases k) auto
      with less.prems(2) obtain d r where
        d: "rx w (rx_pos w) = RxData d" "d \<noteq> []" "bs = d @ r"
        and a: "arriving (w\<lparr>rx_pos := Suc (rx_pos w)\<rparr>) k' = Some r"
        using arriving_Suc by blast
      let ?data = "take n d"
      let ?w1 = "w\<lparr>pending := drop n d, rx_pos := Suc (rx_pos w)\<rparr>"
      have r: "recv (int n) w = Some (Inr ?data, ?w1)"
        using n True d less.prems(1) by (simp add: recv_def)
      have pos: "0 < length ?data" using n d by simp
      have a1: "arriving ?w1 k' = Some r"
        using a arriving_cong [of ?w1 "w\<lparr>rx_pos := Suc (rx_pos w)\<rparr>" k'] by simp
      have "\<exists>chunks w'. receive_all (int (n - length ?data)) ?w1 = Some (Inr chunks, w')
          \<and> concat chunks = take (n - length ?data) (pending ?w1 @ r)"
        using less.prems n pos True d
        by (intro less.IH [OF _ _ a1]) auto
      then obtain chunks w' where
        c: "receive_all (int (n - length ?data)) ?w1 = Some (Inr chunks, w')"
        and t: "concat chunks = take (n - length ?data) (pending ?w1 @ r)"
        by blast
      have i: "int n - int (length ?data) = int (n - length ?data)" by simp
      have "receive_all (int n) w = Some (Inr (?data # chunks), w')"
        using receive_all_step [OF _ r] n c by (simp only: i) simp
      moreover have "concat (?data # chunks) = take n (pending w @ bs)"
        using t True d by (auto simp: min_def not_le)
      ultimately show ?thesis by blast
    qed
  qed
qed

lemma receive_all_short_empty:
  "sock_open w \<Longrightarrow> pending w = [] \<Longrightarrow> arriving w k = Some bs \<Longrightarrow> int (length bs) < n \<Longrightarrow>
   rx w (rx_pos w + k) = RxClosed \<or> rx w (rx_pos w + k) = RxData [] \<Longrightarrow>
   receive_all n w = None"
proof (induction k arbitrary: w bs n)
  case 0
  then have "recv n w = Some (Inr [], w)"
    by (auto simp: recv_def)
  moreover have "0 < n" using 0 by simp
  ultimately show ?case by (rule receive_all_closed_diverges)
next
  case (Suc k)
  from Suc.prems(3) obtain d r where
    d: "rx w (rx_pos w) = RxData d" "d \<noteq> []" "bs = d @ r"
    and a: "arriving (w\<lparr>rx_pos := Suc (rx_pos w)\<rparr>) k = Some r"
    using arriving_Suc by blast
  let ?w1 = "w\<lparr>pending := [], rx_pos := Suc (rx_pos w)\<rparr>"
  have n: "int (length d) < n" "n \<noteq> 0" using Suc.prems(4) d by auto
  have r: "recv n w = Some (Inr d, ?w1)"
    using Suc.prems(1,2) d n by (simp add: recv_def)
  have a1: "arriving ?w1 k = Some r"
    using a arriving_cong [of ?w1 "w\<lparr>rx_pos := Suc (rx_pos w)\<rparr>" k] by simp
  have "receive_all (n - int (length d)) ?w1 = None"
    using Suc.prems d by (intro Suc.IH [OF _ _ a1]) auto
  then show ?case
    using receive_all_step [OF n(2) r] by simp
qed

lemma receive_all_short_supply:
  assumes "sock_open w" and "arriving w k = Some bs" and "int (length (pending w @ bs)) < n"
    and "rx w (rx_pos w + k) = RxClosed \<or> rx w (rx_pos w + k) = RxData []"
  shows "receive_all n w = None"
proof (cases "pending w = []")
  case True
  with assms show ?thesis
    by (intro receive_all_short_empty [where k = k and bs = bs]) auto
next
  case False
  let ?w1 = "w\<lparr>pending := []\<rparr>"
  have n: "int (length (pending w)) < n" "n \<noteq> 0" using assms(3) by auto
  have r: "recv n w = Some (Inr (pending w), ?w1)"
    using assms(1) False n by (simp add: recv_def)
  have "receive_all (n - int (length (pending w))) ?w1 = None"
    using assms by (intro receive_all_short_empty [where k = k and bs = bs]) auto
  then show ?thesis
    using receive_all_step [OF n(2) r] by simp
qed

text \<open>
  Claim C10. The loop \<open>_receive_all(n)\<close> returns only when the chunks it has read hold
  \<open>n\<close> bytes in total; it does return, with exactly the first \<open>n\<close> bytes, whenever
  the bytes pending on the socket together with those of the next arrivals are at least
  \<open>n\<close>; and when a read returns no byte while bytes are outstanding (the peer has
  closed), be it the first read of the loop or a read after any number of chunks that
  together hold fewer than \<open>n\<close> bytes, the loop never returns: it neither yields a
  result nor raises.
\<close>

theorem receive_all_terminates:
  "(receive_all n w = Some (Inr chunks, w') \<longrightarrow> int (length (concat chunks)) = n)
   \<and> (sock_open w \<and> arriving w k = Some bs \<and> 0 \<le> n \<and> nat n \<le> length (pending w @ bs) \<longrightarrow>
        (\<exists>cs w2. receive_all n w = Some (Inr cs, w2)
           \<and> concat cs = take (nat n) (pending w @ bs)))
   \<and> (0 < n \<and> recv n w = Some (Inr [], w1) \<longrightarrow> receive_all n w = None)
   \<and> (sock_open w \<and> arriving w j = Some cs \<and> int (length (pending w @ cs)) < n
        \<and> (rx w (rx_pos w + j) = RxClosed \<or> rx w (rx_pos w + j) = RxData []) \<longrightarrow>
        receive_all n w = None)"
proof (intro conjI impI)
  assume "receive_all n w = Some (Inr chunks, w')"
  from receive_all_total_length [OF this] show "int (length (concat chunks)) = n"
    by simp
next
  assume a: "sock_open w \<and> arriving w k = Some bs \<and> 0 \<le> n \<and> nat n \<le> length (pending w @ bs)"
  then have "\<exists>cs w2. receive_all (int (nat n)) w = Some (Inr cs, w2)
      \<and> concat cs = take (nat n) (pending w @ bs)"
    by (intro receive_all_supplied [where k = k]) auto
  with a show "\<exists>cs w2. receive_all n w = Some (Inr cs, w2)
      \<and> concat cs = take (nat n) (pending w @ bs)"
    by simp
next
  assume "0 < n \<and> recv n w = Some (Inr [], w1)"
  then show "receive_all n w = None"
    using receive_all_closed_diverges by blast
next
  assume "sock_open w \<and> arriving w j = Some cs \<and> int (length (pending w @ cs)) < n
        \<and> (rx w (rx_pos w + j) = RxClosed \<or> rx w (rx_pos w + j) = RxData [])"
  then show "receive_all n w = None"
    using receive_all_short_supply [of w j cs n] by blast
qed

lemma two_chunks_arriving:
  "arriving (channel0\<lparr>rx := scripted [RxData ''suc'', RxData ''cess okay''] RxClosed\<rparr>) 2 =
     Some ''success okay''"
  by (simp add: channel0_def scripted_def numeral_2_eq_2)

lemma two_chunks_receive_all:
  "receive_all 10 (channel0\<lparr>rx := scripted [RxData ''suc'', RxData ''cess okay''] RxClosed\<rparr>) =
     Some (Inr [''suc'', ''cess ok''],
           channel0\<lparr>rx := scripted [RxData ''suc'', RxData ''cess okay''] RxClosed,
                    rx_pos := 2, pending := ''ay''\<rparr>)"
  apply (subst receive_all.simps)
  apply (simp add: recv_def channel0_def scripted_def)
  apply (subst receive_all.simps)
  apply (simp add: recv_def channel0_def scripted_def)
  apply (subst receive_all.simps)
  apply simp
  done

lemma closed_after_chunk_arriving:
  "arriving (channel0\<lparr>pending := ''ab'', rx := scripted [RxData ''cd''] RxClosed\<rparr>) 1 =
     Some ''cd''"
  by (simp add: channel0_def scripted_def)

theorem receive_all_terminates_witness:
  "receive_all 10 (channel0\<lparr>rx := scripted [RxData ''suc'', RxData ''cess okay''] RxClosed\<rparr>) =
     Some (Inr [''suc'', ''cess ok''],
           channel0\<lparr>rx := scripted [RxData ''suc'', RxData ''cess okay''] RxClosed,
                    rx_pos := 2, pending := ''ay''\<rparr>)
   \<and> int (length (concat [''suc'', ''cess ok''])) = 10
   \<and> sock_open (channel0\<lparr>rx := scripted [RxData ''suc'', RxData ''cess okay''] RxClosed\<rparr>)
   \<and> arriving (channel0\<lparr>rx := scripted [RxData ''suc'', RxData ''cess okay''] RxClosed\<rparr>) 2 =
       Some ''success okay''
   \<and> (\<exists>cs w2.
        receive_all 10 (channel0\<lparr>rx := scripted [RxData ''suc'', RxData ''cess okay''] RxClosed\<rparr>) =
          Some (Inr cs, w2)
        \<and> concat cs = ''success ok'')
   \<and> recv 5 channel0 = Some (Inr [], channel0)
   \<and> receive_all 5 channel0 = None
   \<and> sock_open (channel0\<lparr>pending := ''ab'', rx := scripted [RxData ''cd''] RxClosed\<rparr>)
   \<and> arriving (channel0\<lparr>pending := ''ab'', rx := scripted [RxData ''cd''] RxClosed\<rparr>) 1 =
       Some ''cd''
   \<and> int (length (pending (channel0\<lparr>pending := ''ab'',
                 rx := scripted [RxData ''cd''] RxClosed\<rparr>) @ ''cd'')) < 5
   \<and> rx (channel0\<lparr>pending := ''ab'', rx := scripted [RxData ''cd''] RxClosed\<rparr>)
        (rx_pos (channel0\<lparr>pending := ''ab'', rx := scripted [RxData ''cd''] RxClosed\<rparr>) + 1) =
       RxClosed
   \<and> receive_all 5 (channel0\<lparr>pending := ''ab'', rx := scripted [RxData ''cd''] RxClosed\<rparr>) =
       None"
proof -
  let ?w = "channel0\<lparr>rx := scripted [RxData ''suc'', RxData ''cess okay''] RxClosed\<rparr>"
  let ?v = "channel0\<lparr>pending := ''ab'', rx := scripted [RxData ''cd''] RxClosed\<rparr>"
  have o: "sock_open ?w" by (simp add: channel0_def)
  have p: "pending ?w = []" by (simp add: channel0_def)
  have r: "recv 5 channel0 = Some (Inr [], channel0)"
    by (simp add: recv_def channel0_def)
  have v: "sock_open ?v" "int (length (pending ?v @ ''cd'')) < 5"
    "rx ?v (rx_pos ?v + 1) = RxClosed"
    by (simp_all add: channel0_def scripted_def)
  have "int (length (concat [''suc'', ''cess ok''])) = 10"
    using receive_all_terminates [of 10 ?w "[''suc'', ''cess ok'']"] two_chunks_receive_all
    by blast
  moreover have "\<exists>cs w2. receive_all 10 ?w = Some (Inr cs, w2) \<and> concat cs = ''success ok''"
    using receive_all_terminates [of 10 ?w _ _ 2 "''success okay''"] o p two_chunks_arriving
    by simp
  moreover have "receive_all 5 channel0 = None"
    using receive_all_terminates [of 5 channel0 _ _ _ _ channel0] r by simp
  moreover have "receive_all 5 ?v = None"
    using receive_all_terminates [of 5 ?v _ _ _ _ _ 1 "''cd''"] v closed_after_chunk_arriving
    by blast
  ultimately show ?thesis
    using o r v two_chunks_arriving two_chunks_receive_all closed_after_chunk_arriving
    by blast
qed

section \<open>The length header\<close>

lemma dec_nonempty: "dec n \<noteq> []"
  by (subst dec.simps) simp

lemma digit_char_cases:
  assumes "d < 10"
  shows "is_digit (digit_char d) \<and> digit_val (digit_char d) = int d"
proof -
  from assms have "d = 0 \<or> d = 1 \<or> d = 2 \<or> d = 3 \<or> d = 4 \<or> d = 5 \<or> d = 6 \<or> d = 7
      \<or> d = 8 \<or> d = 9"
    by arith
  then show ?thesis
    by (elim disjE) (simp_all add: digit_char_def is_digit_def digit_val_def)
qed

lemma dec_digits: "c \<in> set (dec n) \<Longrightarrow> is_digit c"
proof (induction n arbitrary: c rule: dec.induct)
  case (1 n)
  show ?case
  proof (cases "n < 10")
    case True
    with "1.prems" show ?thesis
      by (subst (asm) dec.simps) (simp add: digit_char_cases)
  next
    case False
    with "1.prems" have "c \<in> set (dec (n div 10)) \<or> c = digit_char (n mod 10)"
      by (subst (asm) dec.simps) auto
    with False "1.IH" show ?thesis
      by (auto simp: digit_char_cases)
  qed
qed

lemma length_dec: "n < 10 ^ k \<Longrightarrow> 0 < k \<Longrightarrow> length (dec n) \<le> k"
proof (induction n arbitrary: k rule: dec.induct)
  case (1 n)
  show ?case
  proof (cases "n < 10")
    case True
    with "1.prems" show ?thesis by (subst dec.simps) simp
  next
    case False
    from "1.prems" obtain j where k: "k = Suc j" by (cases k) auto
    with False "1.prems" have j: "0 < j" by (cases j) auto
    from "1.prems" k have "n div 10 < 10 ^ j"
      by (simp add: less_mult_imp_div_less mult.commute)
    with False j have "length (dec (n div 10)) \<le> j" by (intro "1.IH")
    with False k show ?thesis by (subst dec.simps) simp
  qed
qed

lemma digits_all: "xs \<noteq> [] \<Longrightarrow> \<forall>c\<in>set xs. is_digit c \<Longrightarrow> digits xs"
  by (induction xs rule: digits.induct) (auto simp: is_digit_def)

lemma digits_value_snoc:
  "c \<noteq> CHR ''_'' \<Longrightarrow> digits_value (xs @ [c]) = 10 * digits_value xs + digit_val c"
  by (simp add: digits_value_def)

lemma digits_value_dec: "digits_value (dec n) = int n"
proof (induction n rule: dec.induct)
  case (1 n)
  show ?case
  proof (cases "n < 10")
    case True
    then have "digit_char n \<noteq> CHR ''_''"
      using digit_char_cases [of n] by (auto simp: is_digit_def)
    with True show ?thesis
      by (subst dec.simps) (simp add: digits_value_def digit_char_cases)
  next
    case False
    have u: "digit_char (n mod 10) \<noteq> CHR ''_''"
      using digit_char_cases [of "n mod 10"] by (auto simp: is_digit_def)
    have "digits_value (dec n) =
        10 * digits_value (dec (n div 10)) + digit_val (digit_char (n mod 10))"
      using False by (subst dec.simps) (simp add: digits_value_snoc [OF u])
    moreover have "10 * int (n div 10) + int (n mod 10) = int n"
      by presburger
    ultimately show ?thesis
      using False "1.IH" by (simp add: digit_char_cases)
  qed
qed

lemma dropWhile_hd: "xs \<noteq> [] \<Longrightarrow> \<not> P (hd xs) \<Longrightarrow> dropWhile P xs = xs"
  by (cases xs) auto

lemma digit_not_space: "is_digit c \<Longrightarrow> \<not> is_space c"
  by (auto simp: is_digit_def is_space_def)

lemma strip_padded_dec: "strip (replicate k CHR '' '' @ dec n) = dec n"
proof -
  have h: "\<not> is_space (hd (dec n))"
    using dec_nonempty [of n] dec_digits [of "hd (dec n)" n] by (auto simp: digit_not_space)
  have l: "\<not> is_space (hd (rev (dec n)))"
    using dec_nonempty [of n] dec_digits [of "last (dec n)" n]
    by (auto simp: digit_not_space hd_rev)
  have "dropWhile is_space (replicate k CHR '' '' @ dec n) = dropWhile is_space (dec n)"
    by (induction k) (simp_all add: is_space_def)
  also have "\<dots> = dec n"
    using dec_nonempty h by (rule dropWhile_hd)
  finally show ?thesis
    using dropWhile_hd [of "rev (dec n)" is_space] dec_nonempty [of n] l
    by (simp add: strip_def)
qed

lemma py_int_format_len: "py_int (format_len n) = Inr (int n)"
proof -
  obtain c t where ct: "dec n = c # t"
    using dec_nonempty [of n] by (cases "dec n") auto
  have d: "is_digit c" using dec_digits [of c n] ct by simp
  then have s: "c \<noteq> CHR ''-''" "c \<noteq> CHR ''+''" by (auto simp: is_digit_def)
  have "digits (c # t)"
    using digits_all [of "dec n"] dec_nonempty [of n] dec_digits [of _ n] ct by auto
  moreover have "digits_value (c # t) = int n"
    using digits_value_dec [of n] ct by simp
  moreover have "strip (format_len n) = c # t"
    unfolding format_len_def strip_padded_dec by (rule ct)
  ultimately show ?thesis
    using s by (simp add: py_int_def)
qed

lemma length_format_len: "n < 10 ^ 10 \<Longrightarrow> length (format_len n) = 10"
  using length_dec [of n 10] by (simp add: format_len_def)

section \<open>A frame, written and read back\<close>

lemma receive_all_pending:
  assumes "sock_open w" and "n \<le> length (pending w)"
  shows "\<exists>chunks. receive_all (int n) w = Some (Inr chunks, w\<lparr>pending := drop n (pending w)\<rparr>)
           \<and> concat chunks = take n (pending w)"
proof (cases "n = 0")
  case True
  then show ?thesis by (subst receive_all.simps) simp
next
  case False
  with assms have p: "pending w \<noteq> []" by auto
  have r: "recv (int n) w = Some (Inr (take n (pending w)), w\<lparr>pending := drop n (pending w)\<rparr>)"
    using False p assms by (simp add: recv_def)
  have l: "int n - int (length (take n (pending w))) = 0"
    using assms by simp
  have "receive_all (int n) w =
      Some (Inr [take n (pending w)], w\<lparr>pending := drop n (pending w)\<rparr>)"
    using False by (subst receive_all_step [OF _ r], simp, simp only: l, subst receive_all.simps) simp
  then show ?thesis by simp
qed

lemma read_frame:
  assumes "sock_open r" and "pending r = format_len (length b) @ b @ rest"
    and "length b < 10 ^ 10"
  shows "recv 10 r = Some (Inr (format_len (length b)), r\<lparr>pending := b @ rest\<rparr>)"
    and "\<exists>chunks. receive_all (int (length b)) (r\<lparr>pending := b @ rest\<rparr>) =
            Some (Inr chunks, r\<lparr>pending := rest\<rparr>) \<and> concat chunks = b"
proof -
  have l: "length (format_len (length b)) = 10"
    using assms(3) by (rule length_format_len)
  then have "pending r \<noteq> []" using assms(2) by auto
  then show "recv 10 r = Some (Inr (format_len (length b)), r\<lparr>pending := b @ rest\<rparr>)"
    using assms(1,2) l by (simp add: recv_def)
  show "\<exists>chunks. receive_all (int (length b)) (r\<lparr>pending := b @ rest\<rparr>) =
            Some (Inr chunks, r\<lparr>pending := rest\<rparr>) \<and> concat chunks = b"
    using receive_all_pending [of "r\<lparr>pending := b @ rest\<rparr>" "length b"] assms(1)
    by simp
qed

lemma encode_valid: "encode P = Inr b \<Longrightarrow> b = P \<and> decode b = Inr P"
  by (auto simp: encode_def decode_def split: if_splits)

text \<open>
  Claim C7, as the code has it. Let the encoded payload be no longer than
  \<open>max_transmission_length\<close> and shorter than \<open>10\<^sup>1\<^sup>0\<close> bytes. Then \<open>_send_only\<close>
  writes a header of exactly ten bytes and then the payload; and on a socket where
  these bytes are pending, the read of ten bytes, \<open>int\<close>, and \<open>_receive_all\<close> give
  back the payload byte for byte and leave what follows the frame unread:
  \<open>try_repair\<close> returns the payload, and \<open>_receive_only\<close> hands it to
  \<open>decode_response\<close>.
\<close>

theorem frame_roundtrip:
  assumes "encode P = Inr b" and "int (length b) \<le> max_transmission_length w"
    and "length b < 10 ^ 10"
    and "sock_open w" and "tx w (tx_pos w) = TxOk" and "tx w (Suc (tx_pos w)) = TxOk"
    and "sock_open r" and "pending r = format_len (length b) @ b @ rest"
  shows "send_only P w =
           Some (Inr (), w\<lparr>tx_pos := Suc (Suc (tx_pos w)),
                           trace := trace w @ [Sent (format_len (length b)), Sent b]\<rparr>)
         \<and> length (format_len (length b)) = 10
         \<and> try_repair r = Some (Inr (Inr P), r\<lparr>pending := rest\<rparr>)
         \<and> receive_only r = Some (decode_response P, r\<lparr>pending := rest\<rparr>)"
proof -
  have s: "send_only P w =
           Some (Inr (), w\<lparr>tx_pos := Suc (Suc (tx_pos w)),
                           trace := trace w @ [Sent (format_len (length b)), Sent b]\<rparr>)"
    using assms(1,2,4,5,6) by (rule send_only_ok)
  have l: "length (format_len (length b)) = 10"
    using assms(3) by (rule length_format_len)
  then have ne: "format_len (length b) \<noteq> []" by auto
  have h: "recv 10 r = Some (Inr (format_len (length b)), r\<lparr>pending := b @ rest\<rparr>)"
    using assms(7,8,3) by (rule read_frame(1))
  obtain chunks where
    c: "receive_all (int (length b)) (r\<lparr>pending := b @ rest\<rparr>) =
          Some (Inr chunks, r\<lparr>pending := rest\<rparr>)"
    and cc: "concat chunks = b"
    using read_frame(2) [OF assms(7,8,3)] by blast
  have d: "decode b = Inr P"
    using assms(1) by (simp add: encode_valid)
  have "try_repair r = Some (Inr (Inr P), r\<lparr>pending := rest\<rparr>)"
    using h c cc d by (simp add: try_repair_def py_int_format_len)
  moreover have "receive_only r = Some (decode_response P, r\<lparr>pending := rest\<rparr>)"
    using h c cc d ne by (simp add: receive_only_def py_int_format_len)
  ultimately show ?thesis
    using s l by simp
qed

lemma format_len_10: "format_len 10 = ''        10''"
proof -
  have "dec 10 = ''10''"
    by (simp add: dec.simps digit_char_def)
  then have "format_len 10 = replicate 8 CHR '' '' @ ''10''"
    by (simp add: format_len_def)
  then show ?thesis
    by (simp add: eval_nat_numeral)
qed

theorem frame_roundtrip_witness:
  "encode ''success ok'' = Inr ''success ok''
   \<and> int (length ''success ok'') \<le> max_transmission_length channel0
   \<and> length ''success ok'' < 10 ^ 10
   \<and> sock_open channel0 \<and> tx channel0 (tx_pos channel0) = TxOk
   \<and> tx channel0 (Suc (tx_pos channel0)) = TxOk
   \<and> send_only ''success ok'' channel0 =
       Some (Inr (), channel0\<lparr>tx_pos := 2,
                       trace := [Sent ''        10'', Sent ''success ok'']\<rparr>)
   \<and> try_repair (channel0\<lparr>pending := ''        10'' @ ''success ok'' @ ''tail''\<rparr>) =
       Some (Inr (Inr ''success ok''), channel0\<lparr>pending := ''tail''\<rparr>)
   \<and> receive_only (channel0\<lparr>pending := ''        10'' @ ''success ok'' @ ''tail''\<rparr>) =
       Some (Inr ''ok'', channel0\<lparr>pending := ''tail''\<rparr>)"
proof -
  let ?r = "channel0\<lparr>pending := ''        10'' @ ''success ok'' @ ''tail''\<rparr>"
  have len: "length ''success ok'' = 10" by simp
  have e: "encode ''success ok'' = Inr ''success ok''"
    by (simp add: encode_def byte_in_def)
  have m: "int (length ''success ok'') \<le> max_transmission_length channel0"
    by (simp add: channel0_def)
  have b: "length ''success ok'' < 10 ^ 10" by simp
  have t: "sock_open channel0" "tx channel0 (tx_pos channel0) = TxOk"
    "tx channel0 (Suc (tx_pos channel0)) = TxOk"
    by (simp_all add: channel0_def)
  have o: "sock_open ?r" by (simp add: channel0_def)
  have p: "pending ?r = format_len (length ''success ok'') @ ''success ok'' @ ''tail''"
    by (simp only: len format_len_10) simp
  have d: "decode_response ''success ok'' = Inr ''ok''"
    by (simp add: decode_response_def split1_def)
  have z: "channel0\<lparr>tx_pos := Suc (Suc (tx_pos channel0)),
             trace := trace channel0 @ [Sent ''        10'', Sent ''success ok'']\<rparr> =
           channel0\<lparr>tx_pos := 2, trace := [Sent ''        10'', Sent ''success ok'']\<rparr>"
    by (simp add: channel0_def)
  show ?thesis
    using frame_roundtrip [OF e m b t o p] e m b t d z
    by (simp only: len format_len_10) simp
qed

lemma utf8_valid_replicate: "utf8_valid (replicate n CHR ''a'')"
  by (induction n) (simp_all add: byte_in_def)

lemma big_payload_header: "format_len (length big_payload) = ''10000000000''"
proof -
  have "dec 10000000000 = ''10000000000''"
    by (simp add: dec.simps digit_char_def)
  then show ?thesis
    by (simp add: format_len_def big_payload_def)
qed

lemma big_payload_send_only:
  "send_only big_payload (channel0\<lparr>max_transmission_length := 10000000000\<rparr>) =
     Some (Inr (), channel0\<lparr>max_transmission_length := 10000000000, tx_pos := 2,
                     trace := [Sent ''10000000000'', Sent big_payload]\<rparr>)"
proof -
  have e: "encode big_payload = Inr big_payload"
    by (simp add: encode_def big_payload_def utf8_valid_replicate)
  have m: "int (length big_payload)
      \<le> max_transmission_length (channel0\<lparr>max_transmission_length := 10000000000\<rparr>)"
    by (simp add: big_payload_def)
  show ?thesis
    using send_only_ok [OF e m] big_payload_header
    by (simp add: channel0_def numeral_2_eq_2)
qed

lemma big_payload_try_repair:
  "try_repair (channel0\<lparr>pending := ''10000000000'' @ big_payload\<rparr>) =
     Some (Inr (Inr (CHR ''0'' # replicate 999999999 CHR ''a'')),
           channel0\<lparr>pending := replicate 9000000001 CHR ''a''\<rparr>)"
proof -
  let ?r1 = "channel0\<lparr>pending := CHR ''0'' # big_payload\<rparr>"
  have h: "recv 10 (channel0\<lparr>pending := ''10000000000'' @ big_payload\<rparr>) =
      Some (Inr ''1000000000'', ?r1)"
    by (simp add: recv_def channel0_def)
  have i: "py_int ''1000000000'' = Inr 1000000000"
    by (simp add: py_int_def strip_def is_space_def is_digit_def digits_value_def digit_val_def)
  have "\<exists>chunks. receive_all (int 1000000000) ?r1 =
      Some (Inr chunks, ?r1\<lparr>pending := drop 1000000000 (pending ?r1)\<rparr>)
      \<and> concat chunks = take 1000000000 (pending ?r1)"
    by (rule receive_all_pending) (simp_all add: channel0_def big_payload_def)
  then obtain chunks where
    c: "receive_all 1000000000 ?r1 =
          Some (Inr chunks, channel0\<lparr>pending := replicate 9000000001 CHR ''a''\<rparr>)"
    and cc: "concat chunks = CHR ''0'' # replicate 999999999 CHR ''a''"
    by (auto simp: big_payload_def)
  have d: "decode (CHR ''0'' # replicate 999999999 CHR ''a'') =
      Inr (CHR ''0'' # replicate 999999999 CHR ''a'')"
    by (simp add: decode_def byte_in_def utf8_valid_replicate)
  show ?thesis
    using h i c cc d by (simp add: try_repair_def)
qed

text \<open>With \<open>max_transmission_length\<close> set to \<open>10\<^sup>1\<^sup>0\<close>, the payload of that many
  bytes is accepted; its header has eleven bytes, the reader takes the first ten of
  them for the length, and returns one header byte and a tenth of the payload.\<close>

theorem frame_roundtrip_counterexample:
  "encode big_payload = Inr big_payload
   \<and> int (length big_payload)
       \<le> max_transmission_length (channel0\<lparr>max_transmission_length := 10000000000\<rparr>)
   \<and> send_only big_payload (channel0\<lparr>max_transmission_length := 10000000000\<rparr>) =
       Some (Inr (), channel0\<lparr>max_transmission_length := 10000000000, tx_pos := 2,
                       trace := [Sent ''10000000000'', Sent big_payload]\<rparr>)
   \<and> try_repair (channel0\<lparr>pending := ''10000000000'' @ big_payload\<rparr>) =
       Some (Inr (Inr (CHR ''0'' # replicate 999999999 CHR ''a'')),
             channel0\<lparr>pending := replicate 9000000001 CHR ''a''\<rparr>)
   \<and> CHR ''0'' # replicate 999999999 CHR ''a'' \<noteq> big_payload"
proof -
  have e: "encode big_payload = Inr big_payload"
    by (simp add: encode_def big_payload_def utf8_valid_replicate)
  have m: "int (length big_payload)
      \<le> max_transmission_length (channel0\<lparr>max_transmission_length := 10000000000\<rparr>)"
    by (simp add: big_payload_def)
  have "length (CHR ''0'' # replicate 999999999 CHR ''a'') \<noteq> length big_payload"
    by (simp add: big_payload_def)
  then have n: "CHR ''0'' # replicate 999999999 CHR ''a'' \<noteq> big_payload"
    by metis
  show ?thesis
    using e m n big_payload_send_only big_payload_try_repair by blast
qed

section \<open>Draining stray frames\<close>

lemma flush_idle:
  "sock_open w \<Longrightarrow> pending w = [] \<Longrightarrow> \<not> sel w (sel_pos w) \<Longrightarrow>
   flush w = Some (Inr (), w\<lparr>sel_pos := Suc (sel_pos w)\<rparr>)"
  by (subst flush.simps) (simp add: select_readable_def)

lemma flush_frame:
  assumes "sock_open w" and "pending w = frame p @ rest" and "length p < 10 ^ 10"
  shows "flush w = flush (w\<lparr>pending := rest\<rparr>)"
proof -
  have l: "length (format_len (length p)) = 10"
    using assms(3) by (rule length_format_len)
  then have ne: "pending w \<noteq> []" using assms(2) by (auto simp: frame_def)
  have s: "select_readable w = Some (Inr True, w)"
    using assms(1) ne by (simp add: select_readable_def)
  have h: "recv 10 w = Some (Inr (format_len (length p)), w\<lparr>pending := p @ rest\<rparr>)"
    using assms(1,2) ne l by (simp add: recv_def frame_def)
  have b: "\<exists>d. recv (int (length p)) (w\<lparr>pending := p @ rest\<rparr>) =
      Some (Inr d, w\<lparr>pending := rest\<rparr>)"
    using assms(1) by (cases "p = []") (auto simp: recv_def)
  then obtain d where
    d: "recv (int (length p)) (w\<lparr>pending := p @ rest\<rparr>) = Some (Inr d, w\<lparr>pending := rest\<rparr>)"
    by blast
  show ?thesis
    by (subst flush.simps) (simp add: s h d py_int_format_len)
qed

lemma flush_drains:
  "sock_open w \<Longrightarrow> pending w = concat (map frame ps) \<Longrightarrow>
   \<forall>p\<in>set ps. length p < 10 ^ 10 \<Longrightarrow> \<not> sel w (sel_pos w) \<Longrightarrow>
   flush w = Some (Inr (), w\<lparr>pending := [], sel_pos := Suc (sel_pos w)\<rparr>)"
proof (induction ps arbitrary: w)
  case Nil
  then have "flush w = Some (Inr (), w\<lparr>sel_pos := Suc (sel_pos w)\<rparr>)"
    by (intro flush_idle) simp_all
  moreover have "w\<lparr>pending := [], sel_pos := Suc (sel_pos w)\<rparr> = w\<lparr>sel_pos := Suc (sel_pos w)\<rparr>"
    using Nil.prems(2) by simp
  ultimately show ?case by simp
next
  case (Cons p ps)
  let ?w = "w\<lparr>pending := concat (map frame ps)\<rparr>"
  have "flush w = flush ?w"
    using Cons.prems by (intro flush_frame [where p = p]) simp_all
  also have "\<dots> = Some (Inr (), ?w\<lparr>pending := [], sel_pos := Suc (sel_pos ?w)\<rparr>)"
    using Cons.prems by (intro Cons.IH) simp_all
  finally show ?case by simp
qed

lemma flush_header_error:
  "select_readable w = Some (Inr True, w1) \<Longrightarrow> recv 10 w1 = Some (Inr raw, w2) \<Longrightarrow>
   py_int raw = Inl e \<Longrightarrow> flush w = Some (Inl e, w2)"
  by (subst flush.simps) simp

lemma flush_rounds_flush: "flush_rounds k w = Some w' \<Longrightarrow> flush w = flush w'"
proof (induction k arbitrary: w)
  case 0
  then show ?case by simp
next
  case (Suc k)
  from Suc.prems obtain w1 raw w2 len discarded w3 where
    s: "select_readable w = Some (Inr True, w1)"
    and h: "recv 10 w1 = Some (Inr raw, w2)"
    and i: "py_int raw = Inr len"
    and b: "recv len w2 = Some (Inr discarded, w3)"
    and r: "flush_rounds k w3 = Some w'"
    by (auto split: option.splits sum.splits bool.splits prod.splits)
  have "flush w = flush w3"
    by (subst flush.simps) (simp add: s h i b)
  with Suc.IH [OF r] show ?case by simp
qed

lemma flush_next_round:
  "(select_readable w = Some (Inl e, w1) \<longrightarrow> flush w = Some (Inl e, w1))
   \<and> (select_readable w = Some (Inr False, w1) \<longrightarrow> flush w = Some (Inr (), w1))
   \<and> (select_readable w = Some (Inr True, w1) \<and> recv 10 w1 = None \<longrightarrow> flush w = None)
   \<and> (select_readable w = Some (Inr True, w1) \<and> recv 10 w1 = Some (Inl e, w2) \<longrightarrow>
        flush w = Some (Inl e, w2))
   \<and> (select_readable w = Some (Inr True, w1) \<and> recv 10 w1 = Some (Inr raw, w2)
        \<and> py_int raw = Inl e \<longrightarrow> flush w = Some (Inl e, w2))
   \<and> (select_readable w = Some (Inr True, w1) \<and> recv 10 w1 = Some (Inr raw, w2)
        \<and> py_int raw = Inr n \<and> recv n w2 = None \<longrightarrow> flush w = None)
   \<and> (select_readable w = Some (Inr True, w1) \<and> recv 10 w1 = Some (Inr raw, w2)
        \<and> py_int raw = Inr n \<and> recv n w2 = Some (Inl e, w3) \<longrightarrow> flush w = Some (Inl e, w3))"
  by (subst flush.simps, simp)+

lemma py_int_empty: "py_int [] = Inl IntLiteralError"
  by (simp add: py_int_def strip_def)

lemma py_int_2: "py_int ''         2'' = Inr 2"
  by (simp add: py_int_def strip_def is_space_def is_digit_def digits_value_def digit_val_def)

lemma py_int_garbage: "py_int ''garbage'' = Inl IntLiteralError"
  by (simp add: py_int_def strip_def is_space_def is_digit_def)

lemma closed_readable_select:
  "select_readable (channel0\<lparr>sel := (\<lambda>_. True)\<rparr>) =
     Some (Inr True, channel0\<lparr>sel := (\<lambda>_. True), sel_pos := 1\<rparr>)"
  by (simp add: select_readable_def channel0_def)

lemma closed_readable_recv:
  "recv 10 (channel0\<lparr>sel := (\<lambda>_. True), sel_pos := 1\<rparr>) =
     Some (Inr [], channel0\<lparr>sel := (\<lambda>_. True), sel_pos := 1\<rparr>)"
  by (simp add: recv_def channel0_def)

lemma one_round:
  "sock_open w \<Longrightarrow> pending w = ''         2ab'' @ rest \<Longrightarrow>
   flush_rounds 1 w = Some (w\<lparr>pending := rest\<rparr>)"
  by (simp add: select_readable_def recv_def py_int_2)

lemma truncated_select:
  "sock_open w \<Longrightarrow> pending w = ''         5'' \<Longrightarrow> rx w (rx_pos w) = RxHang \<Longrightarrow>
   select_readable w = Some (Inr True, w)
   \<and> recv 10 w = Some (Inr ''         5'', w\<lparr>pending := []\<rparr>)
   \<and> recv 5 (w\<lparr>pending := []\<rparr>) = None"
  by (simp add: select_readable_def recv_def)

lemma garbage_select:
  "sock_open w \<Longrightarrow> pending w = ''garbage'' \<Longrightarrow>
   select_readable w = Some (Inr True, w)
   \<and> recv 10 w = Some (Inr ''garbage'', w\<lparr>pending := []\<rparr>)"
  by (simp add: select_readable_def recv_def)

text \<open>
  Claim C4, as the code has it. \<open>flush\<close> has no handler of its own, and its reads are
  blocking reads. On a socket whose unread bytes are whole frames with well-formed
  headers, and which then shows nothing readable within the timeout of the poll,
  \<open>flush\<close> discards them all and returns. In general, after any number of turns of its
  loop, \<open>flush\<close> returns at the first poll that reports nothing readable; an error of
  the poll, of the read of the header, of \<open>int\<close> on the bytes read as header (among
  them: no byte at all, the peer having closed) or of the read of the body leaves
  \<open>flush\<close>; and when the read of the header or of the body never returns (a frame cut
  short whose remainder never arrives), neither does \<open>flush\<close>.
\<close>

theorem flush_best_effort:
  "(sock_open w \<and> pending w = concat (map frame ps) \<and> (\<forall>p\<in>set ps. length p < 10 ^ 10)
      \<and> \<not> sel w (sel_pos w) \<longrightarrow>
        flush w = Some (Inr (), w\<lparr>pending := [], sel_pos := Suc (sel_pos w)\<rparr>))
   \<and> (flush_rounds k w = Some v \<and> select_readable v = Some (Inr False, w1) \<longrightarrow>
        flush w = Some (Inr (), w1))
   \<and> (flush_rounds k w = Some v \<and> select_readable v = Some (Inl e, w1) \<longrightarrow>
        flush w = Some (Inl e, w1))
   \<and> (flush_rounds k w = Some v \<and> select_readable v = Some (Inr True, w1)
        \<and> recv 10 w1 = Some (Inl e, w2) \<longrightarrow> flush w = Some (Inl e, w2))
   \<and> (flush_rounds k w = Some v \<and> select_readable v = Some (Inr True, w1)
        \<and> recv 10 w1 = Some (Inr raw, w2) \<and> py_int raw = Inl e \<longrightarrow>
        flush w = Some (Inl e, w2))
   \<and> (flush_rounds k w = Some v \<and> select_readable v = Some (Inr True, w1)
        \<and> recv 10 w1 = Some (Inr raw, w2) \<and> py_int raw = Inr n
        \<and> recv n w2 = Some (Inl e, w3) \<longrightarrow> flush w = Some (Inl e, w3))
   \<and> (flush_rounds k w = Some v \<and> select_readable v = Some (Inr True, w1)
        \<and> recv 10 w1 = None \<longrightarrow> flush w = None)
   \<and> (flush_rounds k w = Some v \<and> select_readable v = Some (Inr True, w1)
        \<and> recv 10 w1 = Some (Inr raw, w2) \<and> py_int raw = Inr n \<and> recv n w2 = None \<longrightarrow>
        flush w = None)"
  using flush_drains [of w ps] flush_rounds_flush [of k w v]
    flush_next_round [of v e w1 w2 raw n w3]
  by simp

theorem flush_best_effort_witness:
  "sock_open (channel0\<lparr>pending := frame ''ab'' @ frame ''''\<rparr>)
   \<and> pending (channel0\<lparr>pending := frame ''ab'' @ frame ''''\<rparr>) = concat (map frame [''ab'', ''''])
   \<and> length ''ab'' < 10 ^ 10 \<and> length '''' < 10 ^ 10
   \<and> frame ''ab'' @ frame '''' = ''         2ab         0''
   \<and> flush (channel0\<lparr>pending := frame ''ab'' @ frame ''''\<rparr>) =
       Some (Inr (), channel0\<lparr>sel_pos := 1\<rparr>)
   \<and> flush_rounds 0 (channel0\<lparr>sel := (\<lambda>_. True)\<rparr>) = Some (channel0\<lparr>sel := (\<lambda>_. True)\<rparr>)
   \<and> select_readable (channel0\<lparr>sel := (\<lambda>_. True)\<rparr>) =
       Some (Inr True, channel0\<lparr>sel := (\<lambda>_. True), sel_pos := 1\<rparr>)
   \<and> recv 10 (channel0\<lparr>sel := (\<lambda>_. True), sel_pos := 1\<rparr>) =
       Some (Inr [], channel0\<lparr>sel := (\<lambda>_. True), sel_pos := 1\<rparr>)
   \<and> py_int [] = Inl IntLiteralError
   \<and> flush (channel0\<lparr>sel := (\<lambda>_. True)\<rparr>) =
       Some (Inl IntLiteralError, channel0\<lparr>sel := (\<lambda>_. True), sel_pos := 1\<rparr>)
   \<and> flush_rounds 1 (channel0\<lparr>pending := ''         2ab'' @ ''garbage''\<rparr>) =
       Some (channel0\<lparr>pending := ''garbage''\<rparr>)
   \<and> py_int ''garbage'' = Inl IntLiteralError
   \<and> flush (channel0\<lparr>pending := ''         2ab'' @ ''garbage''\<rparr>) =
       Some (Inl IntLiteralError, channel0)
   \<and> flush_rounds 1 (channel0\<lparr>pending := ''         2ab'' @ ''         5'',
                                rx := (\<lambda>_. RxHang)\<rparr>) =
       Some (channel0\<lparr>pending := ''         5'', rx := (\<lambda>_. RxHang)\<rparr>)
   \<and> py_int ''         5'' = Inr 5
   \<and> recv 5 (channel0\<lparr>rx := (\<lambda>_. RxHang)\<rparr>) = None
   \<and> flush (channel0\<lparr>pending := ''         2ab'' @ ''         5'', rx := (\<lambda>_. RxHang)\<rparr>) =
       None
   \<and> flush_rounds 1 (channel0\<lparr>pending := ''         2ab''\<rparr>) = Some channel0
   \<and> select_readable channel0 = Some (Inr False, channel0\<lparr>sel_pos := 1\<rparr>)
   \<and> flush (channel0\<lparr>pending := ''         2ab''\<rparr>) = Some (Inr (), channel0\<lparr>sel_pos := 1\<rparr>)"
proof -
  let ?w = "channel0\<lparr>pending := frame ''ab'' @ frame ''''\<rparr>"
  let ?c = "channel0\<lparr>sel := (\<lambda>_. True)\<rparr>"
  let ?g = "channel0\<lparr>pending := ''         2ab'' @ ''garbage''\<rparr>"
  let ?t = "channel0\<lparr>pending := ''         2ab'' @ ''         5'', rx := (\<lambda>_. RxHang)\<rparr>"
  let ?t1 = "channel0\<lparr>pending := ''         5'', rx := (\<lambda>_. RxHang)\<rparr>"
  let ?d = "channel0\<lparr>pending := ''         2ab''\<rparr>"
  have z: "channel0\<lparr>pending := []\<rparr> = channel0" by (simp add: channel0_def)
  have a: "sock_open ?w" "pending ?w = concat (map frame [''ab'', ''''])"
    "\<forall>p\<in>set [''ab'', '''']. length p < 10 ^ 10" "\<not> sel ?w (sel_pos ?w)"
    by (simp_all add: channel0_def)
  have f: "frame ''ab'' @ frame '''' = ''         2ab         0''"
    by (simp add: frame_def format_len_def dec.simps digit_char_def eval_nat_numeral)
  have "flush ?w = Some (Inr (), ?w\<lparr>pending := [], sel_pos := Suc (sel_pos ?w)\<rparr>)"
    using flush_best_effort [of ?w "[''ab'', '''']"] a by blast
  then have 1: "flush ?w = Some (Inr (), channel0\<lparr>sel_pos := 1\<rparr>)"
    by (simp add: channel0_def)
  have c0: "flush_rounds 0 ?c = Some ?c" by simp
  have 2: "flush ?c = Some (Inl IntLiteralError, channel0\<lparr>sel := (\<lambda>_. True), sel_pos := 1\<rparr>)"
    using flush_best_effort [of ?c _ 0 ?c] c0
      closed_readable_select closed_readable_recv py_int_empty
    by blast
  have g1: "flush_rounds 1 ?g = Some (channel0\<lparr>pending := ''garbage''\<rparr>)"
    using one_round [of ?g "''garbage''"] by (simp add: channel0_def)
  have g2: "select_readable (channel0\<lparr>pending := ''garbage''\<rparr>) =
        Some (Inr True, channel0\<lparr>pending := ''garbage''\<rparr>)
      \<and> recv 10 (channel0\<lparr>pending := ''garbage''\<rparr>) = Some (Inr ''garbage'', channel0)"
    using garbage_select [of "channel0\<lparr>pending := ''garbage''\<rparr>"] z
    by (simp add: channel0_def)
  have 3: "flush ?g = Some (Inl IntLiteralError, channel0)"
    using flush_best_effort [of ?g _ 1 "channel0\<lparr>pending := ''garbage''\<rparr>"] g1 g2
      py_int_garbage
    by blast
  have t1: "flush_rounds 1 ?t = Some ?t1"
    using one_round [of ?t "''         5''"] by (simp add: channel0_def)
  have t2: "select_readable ?t1 = Some (Inr True, ?t1)
      \<and> recv 10 ?t1 = Some (Inr ''         5'', channel0\<lparr>rx := (\<lambda>_. RxHang)\<rparr>)
      \<and> recv 5 (channel0\<lparr>rx := (\<lambda>_. RxHang)\<rparr>) = None"
    using truncated_select [of ?t1] by (simp add: channel0_def)
  have 4: "flush ?t = None"
    using flush_best_effort [of ?t _ 1 ?t1] t1 t2 py_int_5
    by blast
  have d1: "flush_rounds 1 ?d = Some channel0"
    using one_round [of ?d "[]"] z by (simp add: channel0_def)
  have d2: "select_readable channel0 = Some (Inr False, channel0\<lparr>sel_pos := 1\<rparr>)"
    by (simp add: select_readable_def channel0_def)
  have 5: "flush ?d = Some (Inr (), channel0\<lparr>sel_pos := 1\<rparr>)"
    using flush_best_effort [of ?d _ 1 channel0] d1 d2 by blast
  show ?thesis
    using a(1,2) f 1 c0 closed_readable_select closed_readable_recv py_int_empty 2
      g1 py_int_garbage 3 t1 py_int_5 t2 4 d1 d2 5
    by simp
qed

text \<open>The peer has closed and the poll reports the socket readable: \<open>flush\<close> raises
  the \<open>ValueError\<close> of \<open>int(b'')\<close>. The header of a frame of five bytes is pending and
  nothing ever follows: \<open>flush\<close> does not return.\<close>

theorem flush_raises_counterexample:
  "flush (channel0\<lparr>sel := (\<lambda>_. True)\<rparr>) =
     Some (Inl IntLiteralError, channel0\<lparr>sel := (\<lambda>_. True), sel_pos := 1\<rparr>)
   \<and> flush (channel0\<lparr>pending := ''         5'', rx := (\<lambda>_. RxHang)\<rparr>) = None"
proof -
  let ?t1 = "channel0\<lparr>pending := ''         5'', rx := (\<lambda>_. RxHang)\<rparr>"
  have a: "flush (channel0\<lparr>sel := (\<lambda>_. True)\<rparr>) =
     Some (Inl IntLiteralError, channel0\<lparr>sel := (\<lambda>_. True), sel_pos := 1\<rparr>)"
    using closed_readable_select closed_readable_recv py_int_empty
    by (subst flush.simps) simp
  have "select_readable ?t1 = Some (Inr True, ?t1)
      \<and> recv 10 ?t1 = Some (Inr ''         5'', ?t1\<lparr>pending := []\<rparr>)
      \<and> recv 5 (?t1\<lparr>pending := []\<rparr>) = None"
    by (rule truncated_select) (simp_all add: channel0_def)
  then have "flush ?t1 = None"
    using py_int_5 by (subst flush.simps) simp
  with a show ?thesis by simp
qed

end
